theory Spec2Isabelle
  imports
    Main
    "HOL-Library.Word"
    "HOL-Library.Char_ord"
    "HOL-Library.List_Lexorder"
    "HOL-Library.Signed_Division"
begin

section \<open>The Quassel core: storage commitment, handshake and session registry\<close>

text \<open>
  A shallow embedding of \<^verbatim>\<open>src/core/core.cpp\<close>. The singleton \<^verbatim>\<open>Core\<close> object is a
  record that every member function takes and returns. Pointers are addresses (natural
  numbers) into two explicit stores, one of \<^verbatim>\<open>Storage\<close> objects and one of
  \<^verbatim>\<open>SessionThread\<close> objects; the null pointer is \<open>None\<close>. A call through a null
  pointer, \<^verbatim>\<open>exit(1)\<close> and a failed \<^verbatim>\<open>Q_ASSERT\<close> end the run with a \<open>fault\<close>.
  What the core writes to a socket, and what it logs, is appended to a trace.
\<close>

subsection \<open>Qt values and containers\<close>

type_synonym UserId = int
type_synonym socket = nat

text \<open>
  \<^verbatim>\<open>QVariant\<close>, for the kinds of value the handshake carries: booleans, 32-bit integers,
  strings, a \<^verbatim>\<open>UserId\<close>, lists and string-keyed maps. \<open>VInvalid\<close> is the default-constructed
  variant that \<^verbatim>\<open>operator[]\<close> yields for a missing key.
\<close>

datatype QVariant =
    VInvalid
  | VBool bool
  | VUInt "32 word"
  | VInt "32 word"
  | VString string
  | VUserId UserId
  | VList "QVariant list"
  | VMap "(string \<times> QVariant) list"

type_synonym QVariantMap = "(string \<times> QVariant) list"

text \<open>
  \<^verbatim>\<open>QMap\<close> and \<^verbatim>\<open>QHash\<close> are association lists. \<open>insertQ\<close> is \<^verbatim>\<open>m[k] = v\<close>: the
  key gets the new value, and the keys stay in ascending order, the order in which
  \<^verbatim>\<open>QMap::values()\<close> lists them (for a \<^verbatim>\<open>QHash\<close>, whose order Qt leaves open, it is
  one admissible order).
\<close>

definition containsQ :: "('k \<times> 'v) list \<Rightarrow> 'k \<Rightarrow> bool" where
  "containsQ m k = (case map_of m k of None \<Rightarrow> False | Some v \<Rightarrow> True)"

definition removeQ :: "'k \<Rightarrow> ('k \<times> 'v) list \<Rightarrow> ('k \<times> 'v) list" where
  "removeQ k m = filter (\<lambda>p. fst p \<noteq> k) m"

definition insertQ :: "'k::linorder \<Rightarrow> 'v \<Rightarrow> ('k \<times> 'v) list \<Rightarrow> ('k \<times> 'v) list" where
  "insertQ k v m = insort_key fst (k, v) (removeQ k m)"

definition valueQ :: "QVariantMap \<Rightarrow> string \<Rightarrow> QVariant" where
  "valueQ m k = (case map_of m k of None \<Rightarrow> VInvalid | Some v \<Rightarrow> v)"

text \<open>Decimal rendering, as \<^verbatim>\<open>QString::arg\<close> and \<^verbatim>\<open>QVariant::toString\<close> print numbers.\<close>

definition digitChar :: "nat \<Rightarrow> char" where
  "digitChar d = char_of (48 + d)"

function showNat :: "nat \<Rightarrow> string" where
  "showNat n = (if n < 10 then [digitChar n] else showNat (n div 10) @ [digitChar (n mod 10)])"
  by pat_completeness auto
termination
  by (relation "measure id") auto

declare showNat.simps [simp del]

definition showInt :: "int \<Rightarrow> string" where
  "showInt i = (if i < 0 then CHR ''-'' # showNat (nat (- i)) else showNat (nat i))"

definition pad2 :: "string \<Rightarrow> string" where
  "pad2 s = replicate (2 - length s) CHR ''0'' @ s"

subsection \<open>What the core takes from its surroundings\<close>

datatype SocketError = UnknownSocketError | UnsupportedSocketOperationError | OtherSocketError

text \<open>
  The constants of \<^verbatim>\<open>Global\<close>, the default arguments declared in \<^verbatim>\<open>core.h\<close>, Qt's string
  parsers and the facts about the host that the code asks Qt for. None of them is defined
  in \<^verbatim>\<open>core.cpp\<close>, so the model takes them as parameters.
\<close>

record Env =
  coreNeedsProtocol :: "32 word"
  protocolVersion :: "32 word"
  quasselVersion :: string
  quasselBuildDate :: string
  defaultPort :: "32 word"
  defaultSetup :: bool
  defaultRestore :: bool
  strToUInt :: "string \<Rightarrow> 32 word"
  strToBool :: "string \<Rightarrow> bool"
  strToUpper :: "string \<Rightarrow> string"
  strAsUInt :: "string \<Rightarrow> 32 word option"
  strAsInt :: "string \<Rightarrow> 32 word option"
  listenV6 :: "32 word \<Rightarrow> SocketError option"
  listenV4 :: "32 word \<Rightarrow> SocketError option"
  uptimeSecs :: int
  startTimeText :: string
  haveOpenSsl :: bool
  haveCompress :: bool
  serverIsSsl :: bool
  certIsValid :: bool
  socketIsSsl :: "socket \<Rightarrow> bool"

text \<open>The conversions of \<^verbatim>\<open>QVariant\<close>; a value that does not convert gives the default.\<close>

fun toUInt :: "Env \<Rightarrow> QVariant \<Rightarrow> 32 word" where
  "toUInt env (VUInt w) = w"
| "toUInt env (VInt w) = w"
| "toUInt env (VBool b) = (if b then 1 else 0)"
| "toUInt env (VString s) = strToUInt env s"
| "toUInt env v = 0"

fun toBool :: "Env \<Rightarrow> QVariant \<Rightarrow> bool" where
  "toBool env (VBool b) = b"
| "toBool env (VUInt w) = (w \<noteq> 0)"
| "toBool env (VInt w) = (w \<noteq> 0)"
| "toBool env (VString s) = strToBool env s"
| "toBool env v = False"

fun toString :: "QVariant \<Rightarrow> string" where
  "toString (VString s) = s"
| "toString (VBool b) = (if b then ''true'' else ''false'')"
| "toString (VUInt w) = showNat (unat w)"
| "toString (VInt w) = showInt (sint w)"
| "toString v = []"

text \<open>
  \<^verbatim>\<open>v == "literal"\<close>: the literal becomes a string variant, and Qt's
  \<^verbatim>\<open>QVariant::operator==\<close> converts that to the type of \<open>v\<close> before it compares. A
  string converts to a boolean always (\<open>strToBool\<close>), to an integer when it is a number
  (\<open>strAsUInt\<close>, \<open>strAsInt\<close>: the value, \<open>None\<close> otherwise), and to none of the other
  kinds; where it does not convert, the two are unequal.
\<close>

fun eqString :: "Env \<Rightarrow> QVariant \<Rightarrow> string \<Rightarrow> bool" where
  "eqString env (VString t) s = (t = s)"
| "eqString env (VBool b) s = (b = strToBool env s)"
| "eqString env (VUInt w) s = (case strAsUInt env s of None \<Rightarrow> False | Some n \<Rightarrow> w = n)"
| "eqString env (VInt w) s = (case strAsInt env s of None \<Rightarrow> False | Some n \<Rightarrow> w = n)"
| "eqString env v s = False"

text \<open>
  Qt's conversion of a string to a boolean: false for the empty string, \<^verbatim>\<open>"0"\<close> and
  \<^verbatim>\<open>"false"\<close> in any letter case, true for every other string.
\<close>

definition asciiLower :: "char \<Rightarrow> char" where
  "asciiLower ch = (if CHR ''A'' \<le> ch \<and> ch \<le> CHR ''Z'' then char_of (of_char ch + (32::nat)) else ch)"

definition qtStrToBool :: "string \<Rightarrow> bool" where
  "qtStrToBool s = (map asciiLower s \<notin> {[], ''0'', ''false''})"

fun toMap :: "QVariant \<Rightarrow> QVariantMap" where
  "toMap (VMap m) = m"
| "toMap v = []"

fun toList :: "QVariant \<Rightarrow> QVariant list" where
  "toList (VList l) = l"
| "toList v = []"

fun toUserId :: "QVariant \<Rightarrow> UserId" where
  "toUserId (VUserId u) = u"
| "toUserId v = 0"

subsection \<open>The objects of the core\<close>

text \<open>
  A \<^verbatim>\<open>Storage\<close> backend: its descriptor, its private state \<open>db\<close>, and its virtual
  methods as functions of that state. The classes that implement them are not part of
  \<^verbatim>\<open>core.cpp\<close>; every theorem below holds for any implementation.
\<close>

record 'db Storage =
  displayName :: string
  description :: string
  isAvailable :: bool
  db :: 'db
  st_init :: "QVariantMap \<Rightarrow> 'db \<Rightarrow> bool \<times> 'db"
  st_setup :: "QVariantMap \<Rightarrow> 'db \<Rightarrow> bool \<times> 'db"
  st_validateUser :: "string \<Rightarrow> string \<Rightarrow> 'db \<Rightarrow> UserId"
  st_addUser :: "string \<Rightarrow> string \<Rightarrow> 'db \<Rightarrow> 'db"

record SessionThread =
  user :: UserId
  restore :: bool
  running :: bool
  clients :: "socket list"

record CoreSettings =
  storageSettings :: QVariant
  oldDbSettings :: QVariant
  coreState :: QVariant
  port :: "32 word"

datatype LogLevel = DebugMsg | InfoMsg | WarningMsg | ErrorMsg

text \<open>
  The trace. A log entry keeps the level and the fixed text of the message; \<open>Unhooked\<close>
  is \<^verbatim>\<open>disconnect(socket, 0, this, 0)\<close>.
\<close>

datatype event =
    Log LogLevel string
  | Written socket QVariantMap
  | Closed socket
  | Encrypted socket
  | Compressed socket
  | Unhooked socket

datatype fault = NullStorage | NullSession | DanglingPointer | ExitProcess | AssertionFailed

record 'db Core =
  storage :: "nat option"
  configured :: bool
  storageBackends :: "(string \<times> nat) list"
  backendObjs :: "nat \<rightharpoonup> 'db Storage"
  sessions :: "(UserId \<times> nat) list"
  threads :: "SessionThread list"
  blocksizes :: "socket \<rightharpoonup> 32 word"
  clientInfo :: "socket \<rightharpoonup> QVariantMap"
  listening :: bool
  serverError :: SocketError
  settings :: CoreSettings
  trace :: "event list"

definition emit :: "event list \<Rightarrow> 'db Core \<Rightarrow> 'db Core" where
  "emit es c = c\<lparr>trace := trace c @ es\<rparr>"

subsection \<open>Storage handling\<close>

text \<open>\<^verbatim>\<open>Core::registerStorageBackend\<close>; \<^verbatim>\<open>deleteLater\<close> frees the object.\<close>

definition registerStorageBackend :: "'db Core \<Rightarrow> nat \<Rightarrow> fault + (bool \<times> 'db Core)" where
  "registerStorageBackend c backend =
     (case backendObjs c backend of
        None \<Rightarrow> Inl DanglingPointer
      | Some b \<Rightarrow>
          if isAvailable b
          then Inr (True, c\<lparr>storageBackends := insertQ (displayName b) backend (storageBackends c)\<rparr>)
          else Inr (False, c\<lparr>backendObjs := (backendObjs c)(backend := None)\<rparr>))"

text \<open>The loop of \<^verbatim>\<open>initStorage\<close> that deletes every registered backend but the chosen one.\<close>

definition deleteOthers :: "nat \<Rightarrow> nat list \<Rightarrow> (nat \<rightharpoonup> 'db Storage) \<Rightarrow> (nat \<rightharpoonup> 'db Storage)" where
  "deleteOthers keep ss h = fold (\<lambda>s h'. if s \<noteq> keep then h'(s := None) else h') ss h"

text \<open>
  \<^verbatim>\<open>Core::initStorage\<close>. \<open>initFailed\<close> and \<open>initDone\<close> are its last two exits: the
  chosen backend could not be initialised, or it could and the core commits to it. The
  object at \<open>a\<close> is the one the registry and \<^verbatim>\<open>storage\<close> both point to, so what
  \<^verbatim>\<open>init\<close> and \<^verbatim>\<open>setup\<close> did to it stays in the store on either exit.
\<close>

definition initFailed :: "'db Core \<Rightarrow> nat \<Rightarrow> 'db Storage \<Rightarrow> bool \<times> 'db Core" where
  "initFailed c a b =
     (False, emit [Log ErrorMsg ''Could not init storage!'']
        (c\<lparr>backendObjs := (backendObjs c)(a \<mapsto> b), storage := None, configured := False\<rparr>))"

definition initDone :: "'db Core \<Rightarrow> nat \<Rightarrow> 'db Storage \<Rightarrow> bool \<times> 'db Core" where
  "initDone c a b =
     (True, c\<lparr>backendObjs := deleteOthers a (map snd (storageBackends c)) ((backendObjs c)(a \<mapsto> b)),
              storageBackends := [],
              storage := Some a,
              configured := True\<rparr>)"

definition initStorage :: "'db Core \<Rightarrow> QVariantMap \<Rightarrow> bool \<Rightarrow> fault + (bool \<times> 'db Core)" where
  "initStorage c dbSettings setup =
     (let backend = toString (valueQ dbSettings ''Backend'') in
      if backend = [] then Inr (False, c\<lparr>configured := False\<rparr>)
      else
        (case map_of (storageBackends c) backend of
           None \<Rightarrow>
             Inr (False, emit [Log ErrorMsg ''Selected storage backend is not available:'']
                           (c\<lparr>configured := False\<rparr>))
         | Some a \<Rightarrow>
             (case backendObjs c a of
                None \<Rightarrow> Inl DanglingPointer
              | Some b \<Rightarrow>
                  let c1 = c\<lparr>storage := Some a\<rparr>;
                      (ok1, db1) = st_init b dbSettings (db b)
                  in if ok1 then Inr (initDone c1 a (b\<lparr>db := db1\<rparr>))
                     else if setup then
                       (let (ok2, db2) = st_setup b dbSettings db1
                        in if ok2 then
                             (let (ok3, db3) = st_init b dbSettings db2
                              in if ok3 then Inr (initDone c1 a (b\<lparr>db := db3\<rparr>))
                                 else Inr (initFailed c1 a (b\<lparr>db := db3\<rparr>)))
                           else Inr (initFailed c1 a (b\<lparr>db := db2\<rparr>)))
                     else Inr (initFailed c1 a (b\<lparr>db := db1\<rparr>)))))"

subsection \<open>The listening socket\<close>

text \<open>
  \<^verbatim>\<open>QTcpServer::listen\<close>: refused while the server already listens; otherwise the bind
  succeeds (\<open>None\<close>) or fails with an error that \<^verbatim>\<open>serverError()\<close> then reports.
\<close>

definition serverListen :: "SocketError option \<Rightarrow> 'db Core \<Rightarrow> bool \<times> 'db Core" where
  "serverListen outcome c =
     (if listening c then (False, c)
      else (case outcome of
              None \<Rightarrow> (True, c\<lparr>listening := True\<rparr>)
            | Some e \<Rightarrow> (False, c\<lparr>serverError := e\<rparr>)))"

definition startListening :: "Env \<Rightarrow> 'db Core \<Rightarrow> 32 word \<Rightarrow> bool \<times> 'db Core" where
  "startListening env c p =
     (let (s1, c1) = serverListen (listenV6 env p) c;
          (s2, c2) = (if s1 then (s1, c1)
                      else if serverError c1 = UnsupportedSocketOperationError
                           then serverListen (listenV4 env p) c1
                           else (s1, c1))
      in if s2 then (s2, emit [Log InfoMsg ''Listening for GUI clients on port ''] c2)
         else (s2, emit [Log ErrorMsg ''Could not open GUI client port %1: %2''] c2))"

definition stopListening :: "'db Core \<Rightarrow> 'db Core" where
  "stopListening c = emit [Log InfoMsg ''No longer listening for GUI clients.''] (c\<lparr>listening := False\<rparr>)"

subsection \<open>Core setup and start\<close>

text \<open>\<^verbatim>\<open>Core::setupCore\<close>: the returned string is the error message, empty on success.\<close>

definition setupCore :: "Env \<Rightarrow> 'db Core \<Rightarrow> QVariant \<Rightarrow> fault + (string \<times> 'db Core)" where
  "setupCore env c setupDataV =
     (let setupData0 = toMap setupDataV;
          usr = toString (valueQ setupData0 ''AdminUser'');
          setupData1 = removeQ ''AdminUser'' setupData0;
          password = toString (valueQ setupData1 ''AdminPasswd'');
          setupData = removeQ ''AdminPasswd'' setupData1
      in if usr = [] \<or> password = [] then Inr (''Admin user or password not set.'', c)
         else
           (case initStorage c setupData True of
              Inl f \<Rightarrow> Inl f
            | Inr (ok, c1) \<Rightarrow>
                if ok then
                  (let c2 = emit [Log InfoMsg ''Creating admin user...'']
                              (c1\<lparr>settings := (settings c1)\<lparr>storageSettings := VMap setupData\<rparr>\<rparr>)
                   in case storage c2 of
                        None \<Rightarrow> Inl NullStorage
                      | Some a \<Rightarrow>
                          (case backendObjs c2 a of
                             None \<Rightarrow> Inl DanglingPointer
                           | Some b \<Rightarrow>
                               let c3 = c2\<lparr>backendObjs :=
                                             (backendObjs c2)(a \<mapsto> b\<lparr>db := st_addUser b usr password (db b)\<rparr>)\<rparr>
                               in Inr ([], snd (startListening env c3 (defaultPort env)))))
                else Inr (''Could not setup storage!'', c1)))"

text \<open>
  \<^verbatim>\<open>Core::init\<close>. The source writes \<^verbatim>\<open>configured = initStorage(...)\<close>: the flag is
  assigned once inside \<^verbatim>\<open>initStorage\<close> and once more from its result.
\<close>

definition migrateOld :: "Env \<Rightarrow> 'db Core \<Rightarrow> fault + 'db Core" where
  "migrateOld env c =
     (let old = toMap (oldDbSettings (settings c))
      in if old = [] then Inr c
         else if strToUpper env (toString (valueQ old ''Type'')) = ''SQLITE'' then
           (let newSettings = insertQ ''Backend'' (VString ''SQLite'') []
            in case initStorage c newSettings (defaultSetup env) of
                 Inl f \<Rightarrow> Inl f
               | Inr (ok, c1) \<Rightarrow>
                   let c2 = c1\<lparr>configured := ok\<rparr>
                   in if ok then
                        Inr (emit [Log WarningMsg ''...but thankfully I found some old settings to migrate!'']
                               (c2\<lparr>settings := (settings c2)\<lparr>storageSettings := VMap newSettings\<rparr>\<rparr>))
                      else Inr c2)
         else Inr c)"

definition init :: "Env \<Rightarrow> 'db Core \<Rightarrow> fault + 'db Core" where
  "init env c =
     (let c0 = c\<lparr>configured := False\<rparr>
      in case initStorage c0 (toMap (storageSettings (settings c0))) (defaultSetup env) of
           Inl f \<Rightarrow> Inl f
         | Inr (ok, c1) \<Rightarrow>
             (case (if ok then Inr (c1\<lparr>configured := ok\<rparr>)
                    else migrateOld env
                           (emit [Log WarningMsg
                              ''Core is currently not configured! Please connect with a Quassel Client for basic setup.'']
                              (c1\<lparr>configured := ok\<rparr>))) of
                Inl f \<Rightarrow> Inl f
              | Inr c2 \<Rightarrow>
                  let (ok2, c3) = startListening env c2 (port (settings c2))
                  in if ok2 then Inr c3 else Inl ExitProcess))"

text \<open>
  \<^verbatim>\<open>Core::Core\<close>, on the persisted settings and the one backend object the source
  creates (\<^verbatim>\<open>new SqliteStorage(this)\<close>, here at address 0). The constructor leaves
  \<^verbatim>\<open>configured\<close> unassigned; \<open>init\<close> assigns it before anything reads it.
\<close>

definition Core_new :: "CoreSettings \<Rightarrow> 'db Storage \<Rightarrow> fault + 'db Core" where
  "Core_new cs sqlite =
     (let c0 = \<lparr>storage = None, configured = False, storageBackends = [],
                backendObjs = Map.empty(0 \<mapsto> sqlite), sessions = [], threads = [],
                blocksizes = Map.empty, clientInfo = Map.empty, listening = False,
                serverError = UnknownSocketError, settings = cs, trace = []\<rparr>
      in case registerStorageBackend c0 0 of
           Inl f \<Rightarrow> Inl f
         | Inr (r, c1) \<Rightarrow>
             if storageBackends c1 = [] then Inl ExitProcess else Inr c1)"

text \<open>\<^verbatim>\<open>Core::instance\<close> on its first call: construct, then \<open>init\<close>.\<close>

definition instance_first :: "Env \<Rightarrow> CoreSettings \<Rightarrow> 'db Storage \<Rightarrow> fault + 'db Core" where
  "instance_first env cs sqlite =
     (case Core_new cs sqlite of Inl f \<Rightarrow> Inl f | Inr c \<Rightarrow> init env c)"

subsection \<open>The session registry\<close>

text \<open>
  \<^verbatim>\<open>Core::createSession\<close>: \<^verbatim>\<open>new SessionThread(uid, restore, this)\<close> takes the next free
  address of the store, the registry records it and the thread is started. The result is
  the pointer returned, \<open>None\<close> for 0.
\<close>

definition createSession :: "'db Core \<Rightarrow> UserId \<Rightarrow> bool \<Rightarrow> nat option \<times> 'db Core" where
  "createSession c uid rst =
     (if containsQ (sessions c) uid
      then (None, emit [Log WarningMsg ''Calling createSession() when a session for the user already exists!''] c)
      else
        (let sess = length (threads c);
             c1 = c\<lparr>threads := threads c @ [\<lparr>user = uid, restore = rst, running = False, clients = []\<rparr>]\<rparr>;
             c2 = c1\<lparr>sessions := insertQ uid sess (sessions c1)\<rparr>;
             c3 = c2\<lparr>threads := (threads c2)[sess := (threads c2 ! sess)\<lparr>running := True\<rparr>]\<rparr>
         in (Some sess, c3)))"

definition addClient :: "socket \<Rightarrow> SessionThread \<Rightarrow> SessionThread" where
  "addClient s t = t\<lparr>clients := clients t @ [s]\<rparr>"

text \<open>
  \<^verbatim>\<open>Core::setupClientSession\<close>. When \<^verbatim>\<open>sess\<close> is null the source closes the socket and
  then still calls \<^verbatim>\<open>sess->addClient(socket)\<close>.
\<close>

definition setupClientSession :: "Env \<Rightarrow> 'db Core \<Rightarrow> socket \<Rightarrow> UserId \<Rightarrow> fault + 'db Core" where
  "setupClientSession env c s uid =
     (let (sess, c1) = (if containsQ (sessions c) uid then (map_of (sessions c) uid, c)
                        else createSession c uid (defaultRestore env));
          c2 = emit [Unhooked s]
                 (c1\<lparr>blocksizes := (blocksizes c1)(s := None), clientInfo := (clientInfo c1)(s := None)\<rparr>)
      in case sess of
           None \<Rightarrow> Inl NullSession
         | Some p \<Rightarrow>
             if p < length (threads c2)
             then Inr (c2\<lparr>threads := (threads c2)[p := addClient s (threads c2 ! p)]\<rparr>)
             else Inl DanglingPointer)"

text \<open>
  The registry and the store of session threads agree: every registry entry points to a
  thread of that user in the store, and every thread of the store is the one registered
  for its user. A store that satisfies this holds at most one thread per user.
\<close>

definition registryOk :: "'db Core \<Rightarrow> bool" where
  "registryOk c =
     (let us = map user (threads c)
      in list_all (\<lambda>e. snd e < length us \<and> us ! snd e = fst e) (sessions c)
         \<and> list_all (\<lambda>p. map_of (sessions c) (us ! p) = Some p) [0..<length us])"

subsection \<open>Session restore\<close>

text \<open>\<^verbatim>\<open>Core::saveState\<close> and \<^verbatim>\<open>Core::restoreState\<close>, on the core that \<^verbatim>\<open>instance()\<close> returns.\<close>

definition saveState :: "'db Core \<Rightarrow> 'db Core" where
  "saveState c =
     (let activeSessions = map (\<lambda>u. VUserId u) (map fst (sessions c));
          state0 = insertQ ''CoreStateVersion'' (VInt 1) [];
          state1 = insertQ ''ActiveSessions'' (VList activeSessions) state0
      in c\<lparr>settings := (settings c)\<lparr>coreState := VMap state1\<rparr>\<rparr>)"

definition restoreSessions :: "'db Core \<Rightarrow> QVariant list \<Rightarrow> 'db Core" where
  "restoreSessions c vs = fold (\<lambda>v c'. snd (createSession c' (toUserId v) True)) vs c"

definition restoreState :: "'db Core \<Rightarrow> 'db Core" where
  "restoreState c =
     (if configured c then
        (if sessions c = [] then
           (let activeSessions = toList (valueQ (toMap (coreState (settings c))) ''ActiveSessions'')
            in if 0 < length activeSessions
               then restoreSessions (emit [Log InfoMsg ''Restoring previous core state...''] c) activeSessions
               else c)
         else emit [Log WarningMsg ''Calling restoreState() even though active sessions exist!''] c)
      else c)"

subsection \<open>Accepting connections\<close>

text \<open>
  \<^verbatim>\<open>Core::incomingConnection\<close> on the sockets that wait in the server's queue;
  \<^verbatim>\<open>server.close()\<close> drops the rest of the queue.
\<close>

fun incomingConnection :: "'db Core \<Rightarrow> socket list \<Rightarrow> 'db Core" where
  "incomingConnection c [] = c"
| "incomingConnection c (s # pending) =
     (let c1 = emit [Log InfoMsg ''Client connected from '']
                 (c\<lparr>blocksizes := (blocksizes c)(s \<mapsto> 0)\<rparr>)
      in if configured c1 then incomingConnection c1 pending
         else emit [Log DebugMsg ''Closing server for basic setup.''] (c1\<lparr>listening := False\<rparr>))"

subsection \<open>The handshake\<close>

definition clientVersion :: "Env \<Rightarrow> QVariantMap \<Rightarrow> 32 word" where
  "clientVersion env msg =
     (let ver0 = 0;
          ver1 = (if \<not> containsQ msg ''ProtocolVersion'' \<and> 732 \<le> toUInt env (valueQ msg ''ClientBuild'')
                  then 1 else ver0)
      in if containsQ msg ''ProtocolVersion'' then toUInt env (valueQ msg ''ProtocolVersion'') else ver1)"

definition tooOldText :: "Env \<Rightarrow> string" where
  "tooOldText env =
     ''<b>Your Quassel Client is too old!</b><br>This core needs at least client/core protocol version ''
     @ showNat (unat (coreNeedsProtocol env)) @ ''.<br>Please consider upgrading your client.''"

definition coreInfoText :: "Env \<Rightarrow> string" where
  "coreInfoText env =
     (let uptime = uptimeSecs env;
          updays = uptime sdiv 86400;
          uptime1 = uptime smod 86400;
          uphours = uptime1 sdiv 3600;
          uptime2 = uptime1 smod 3600;
          upmins = uptime2 sdiv 60
      in ''<b>Quassel Core Version '' @ quasselVersion env @ ''</b><br>Built: '' @ quasselBuildDate env
         @ ''<br>Up '' @ showInt updays @ ''d'' @ pad2 (showInt uphours) @ ''h'' @ pad2 (showInt upmins)
         @ ''m (since '' @ startTimeText env @ '')'')"

text \<open>The descriptors of the registered backends, one map per backend, in registry order.\<close>

fun backendList :: "(nat \<rightharpoonup> 'db Storage) \<Rightarrow> nat list \<Rightarrow> fault + QVariant list" where
  "backendList h [] = Inr []"
| "backendList h (p # ps) =
     (case h p of
        None \<Rightarrow> Inl DanglingPointer
      | Some b \<Rightarrow>
          (case backendList h ps of
             Inl f \<Rightarrow> Inl f
           | Inr vs \<Rightarrow>
               Inr (VMap (insertQ ''Description'' (VString (description b))
                           (insertQ ''DisplayName'' (VString (displayName b)) [])) # vs)))"

text \<open>
  The branch of \<^verbatim>\<open>processClientMessage\<close> for a \<^verbatim>\<open>ClientInit\<close> message. \<open>supportSsl\<close>
  and \<open>supportsCompression\<close> are its two local flags, \<open>initAckReply\<close> is the reply map as
  it stands before \<^verbatim>\<open>MsgType\<close> is set.
\<close>

definition supportSsl :: "Env \<Rightarrow> socket \<Rightarrow> bool" where
  "supportSsl env s = (haveOpenSsl env \<and> serverIsSsl env \<and> socketIsSsl env s \<and> certIsValid env)"

definition supportsCompression :: "Env \<Rightarrow> bool" where
  "supportsCompression env = haveCompress env"

definition initAckReply :: "Env \<Rightarrow> 'db Core \<Rightarrow> socket \<Rightarrow> fault + QVariantMap" where
  "initAckReply env c s =
     (let r0 = insertQ ''CoreVersion'' (VString (quasselVersion env)) [];
          r1 = insertQ ''CoreDate'' (VString (quasselBuildDate env)) r0;
          r2 = insertQ ''CoreBuild'' (VInt 860) r1;
          r3 = insertQ ''ProtocolVersion'' (VUInt (protocolVersion env)) r2;
          r4 = insertQ ''CoreInfo'' (VString (coreInfoText env)) r3;
          r5 = insertQ ''SupportSsl'' (VBool (supportSsl env s)) r4;
          r6 = insertQ ''SupportsCompression'' (VBool (supportsCompression env)) r5;
          r7 = insertQ ''LoginEnabled'' (VBool True) r6
      in if configured c then Inr (insertQ ''Configured'' (VBool True) r7)
         else (case backendList (backendObjs c) (map snd (storageBackends c)) of
                 Inl f \<Rightarrow> Inl f
               | Inr backends \<Rightarrow>
                   Inr (insertQ ''LoginEnabled'' (VBool False)
                         (insertQ ''StorageBackends'' (VList backends)
                           (insertQ ''Configured'' (VBool False) r7)))))"

definition clientInit :: "Env \<Rightarrow> 'db Core \<Rightarrow> socket \<Rightarrow> QVariantMap \<Rightarrow> fault + 'db Core" where
  "clientInit env c s msg =
     (if clientVersion env msg < coreNeedsProtocol env then
        (let reply0 = insertQ ''MsgType'' (VString ''ClientInitReject'') [];
             reply1 = insertQ ''Error'' (VString (tooOldText env)) reply0
         in Inr (emit [Written s reply1, Log WarningMsg ''Client too old, rejecting.'', Closed s] c))
      else
        (case initAckReply env c s of
           Inl f \<Rightarrow> Inl f
         | Inr r8 \<Rightarrow>
             let c1 = c\<lparr>clientInfo := (clientInfo c)(s \<mapsto> msg)\<rparr>;
                 reply = insertQ ''MsgType'' (VString ''ClientInitAck'') r8;
                 c2 = emit [Written s reply] c1;
                 c3 = (if supportSsl env s \<and> toBool env (valueQ msg ''UseSsl'')
                       then emit [Log DebugMsg ''Starting TLS for Client:'', Encrypted s] c2
                       else c2);
                 c4 = (if supportsCompression env \<and> toBool env (valueQ msg ''UseCompression'')
                       then emit [Compressed s, Log DebugMsg ''Using compression for Client: ''] c3
                       else c3)
             in Inr c4))"

text \<open>The reply that the \<^verbatim>\<open>ClientLogin\<close> branch builds when \<^verbatim>\<open>validateUser\<close> returns 0.\<close>

definition loginRejectReply :: QVariantMap where
  "loginRejectReply =
     insertQ ''Error'' (VString
       ''<b>Invalid username or password!</b><br>The username/password combination you supplied could not be found in the database.'')
       (insertQ ''MsgType'' (VString ''ClientLoginReject'') [])"

text \<open>
  \<^verbatim>\<open>Core::processClientMessage\<close>. The tests \<^verbatim>\<open>msg["MsgType"] == "ClientInit"\<close> and the
  like are \<open>eqString\<close>. The \<^verbatim>\<open>ClientLogin\<close> branch calls
  \<^verbatim>\<open>storage->validateUser\<close> without looking at \<^verbatim>\<open>storage\<close> first.
\<close>

definition processClientMessage :: "Env \<Rightarrow> 'db Core \<Rightarrow> socket \<Rightarrow> QVariantMap \<Rightarrow> fault + 'db Core" where
  "processClientMessage env c s msg =
     (if containsQ msg ''MsgType'' then
        (if eqString env (valueQ msg ''MsgType'') ''ClientInit'' then clientInit env c s msg
         else
           (case clientInfo c s of
              None \<Rightarrow>
                (let reply0 = insertQ ''MsgType'' (VString ''ClientLoginReject'') [];
                     reply1 = insertQ ''Error'' (VString
                       ''<b>Client not initialized!</b><br>You need to send an init message before trying to login.'')
                       reply0
                 in Inr (emit [Written s reply1,
                               Log WarningMsg ''Client did not send an init message before trying to login, rejecting.'',
                               Closed s] c))
            | Some info \<Rightarrow>
                if eqString env (valueQ msg ''MsgType'') ''CoreSetupData'' then
                  (case setupCore env c (valueQ msg ''SetupData'') of
                     Inl f \<Rightarrow> Inl f
                   | Inr (result, c1) \<Rightarrow>
                       if result = []
                       then Inr (emit [Written s (insertQ ''MsgType'' (VString ''CoreSetupAck'') [])] c1)
                       else Inr (emit [Written s (insertQ ''Error'' (VString result)
                                         (insertQ ''MsgType'' (VString ''CoreSetupReject'') []))] c1))
                else if eqString env (valueQ msg ''MsgType'') ''ClientLogin'' then
                  (case storage c of
                     None \<Rightarrow> Inl NullStorage
                   | Some a \<Rightarrow>
                       (case backendObjs c a of
                          None \<Rightarrow> Inl DanglingPointer
                        | Some b \<Rightarrow>
                            let uid = st_validateUser b (toString (valueQ msg ''User''))
                                        (toString (valueQ msg ''Password'')) (db b)
                            in if uid = 0 then
                                 Inr (emit [Written s loginRejectReply] c)
                               else
                                 setupClientSession env
                                   (emit [Written s (insertQ ''MsgType'' (VString ''ClientLoginAck'') []),
                                          Log InfoMsg ''Client initialized and authenticated successfully''] c)
                                   s uid))
                else Inr c))
      else Inr (emit [Log WarningMsg ''Antique client trying to connect... refusing.'', Closed s] c))"

text \<open>
  \<^verbatim>\<open>Core::clientHasData\<close> on the frames that \<^verbatim>\<open>SignalProxy::readDataFromDevice\<close> finds
  complete in the socket's buffer, in arrival order.
\<close>

fun readFrames :: "Env \<Rightarrow> 'db Core \<Rightarrow> socket \<Rightarrow> QVariant list \<Rightarrow> fault + 'db Core" where
  "readFrames env c s [] = Inr c"
| "readFrames env c s (item # items) =
     (case processClientMessage env c s (toMap item) of
        Inl f \<Rightarrow> Inl f
      | Inr c1 \<Rightarrow>
          (case blocksizes c1 s of
             None \<Rightarrow> Inr c1
           | Some n \<Rightarrow> readFrames env c1 s items))"

definition clientHasData :: "Env \<Rightarrow> 'db Core \<Rightarrow> socket \<Rightarrow> QVariant list \<Rightarrow> fault + 'db Core" where
  "clientHasData env c s items =
     (case blocksizes c s of
        None \<Rightarrow> Inl AssertionFailed
      | Some n \<Rightarrow> readFrames env c s items)"

subsection \<open>A sample deployment\<close>

text \<open>
  Concrete inputs on which the model is run: a backend that keeps its users in a list and
  initialises once its store has been created, the settings of a first run and of a
  configured core, and the messages of a handshake. The number parsers of \<open>sampleEnv\<close>
  answer as Qt does for strings that are not numbers, the only strings the runs below
  convert; its string-to-boolean conversion is Qt's.
\<close>

type_synonym sampleDb = "bool \<times> (string \<times> string) list"

definition sampleBackend :: "sampleDb \<Rightarrow> sampleDb Storage" where
  "sampleBackend d =
     \<lparr>displayName = ''SQLite'',
      description = ''SQLite is a file-based database engine'',
      isAvailable = True,
      db = d,
      st_init = (\<lambda>s x. (fst x, x)),
      st_setup = (\<lambda>s x. (True, (True, snd x))),
      st_validateUser = (\<lambda>u p x. if (u, p) \<in> set (snd x)
                                   then 1 + int (length (takeWhile (\<lambda>e. e \<noteq> (u, p)) (snd x))) else 0),
      st_addUser = (\<lambda>u p x. (fst x, snd x @ [(u, p)]))\<rparr>"

definition sampleEnv :: Env where
  "sampleEnv =
     \<lparr>coreNeedsProtocol = 10, protocolVersion = 10,
      quasselVersion = ''0.3.0'', quasselBuildDate = ''Oct 01 2008'',
      defaultPort = 4242, defaultSetup = False, defaultRestore = False,
      strToUInt = (\<lambda>s. 0), strToBool = qtStrToBool, strToUpper = (\<lambda>s. s),
      strAsUInt = (\<lambda>s. None), strAsInt = (\<lambda>s. None),
      listenV6 = (\<lambda>p. None), listenV4 = (\<lambda>p. None),
      uptimeSecs = 93784, startTimeText = ''Wed Oct 1 2008'',
      haveOpenSsl = False, haveCompress = True,
      serverIsSsl = False, certIsValid = False, socketIsSsl = (\<lambda>s. False)\<rparr>"

definition firstRunSettings :: CoreSettings where
  "firstRunSettings =
     \<lparr>storageSettings = VInvalid, oldDbSettings = VInvalid, coreState = VInvalid, port = 4242\<rparr>"

definition storedSettings :: CoreSettings where
  "storedSettings = firstRunSettings\<lparr>storageSettings := VMap [(''Backend'', VString ''SQLite'')]\<rparr>"

definition initMsg :: "32 word \<Rightarrow> QVariantMap" where
  "initMsg v = [(''MsgType'', VString ''ClientInit''), (''ProtocolVersion'', VUInt v)]"

definition loginMsg :: "string \<Rightarrow> string \<Rightarrow> QVariantMap" where
  "loginMsg u p = [(''MsgType'', VString ''ClientLogin''), (''Password'', VString p), (''User'', VString u)]"

definition setupMsg :: "string \<Rightarrow> QVariantMap" where
  "setupMsg backend =
     [(''MsgType'', VString ''CoreSetupData''),
      (''SetupData'', VMap [(''AdminPasswd'', VString ''secret''), (''AdminUser'', VString ''admin''),
                            (''Backend'', VString backend)])]"

text \<open>Sequencing of steps that may end in a fault.\<close>

definition andThen :: "fault + 'a \<Rightarrow> ('a \<Rightarrow> fault + 'b) \<Rightarrow> fault + 'b" where
  "andThen r f = (case r of Inl e \<Rightarrow> Inl e | Inr x \<Rightarrow> f x)"

text \<open>
  A core that starts on stored settings and commits to its backend, with one account, and
  a core on its first run.
\<close>

definition committedRun :: "fault + sampleDb Core" where
  "committedRun = instance_first sampleEnv storedSettings (sampleBackend (True, [(''alice'', ''secret'')]))"

definition firstRun :: "fault + sampleDb Core" where
  "firstRun = instance_first sampleEnv firstRunSettings (sampleBackend (False, []))"

definition committedCore :: "sampleDb Core" where
  "committedCore =
     \<lparr>storage = Some 0, configured = True, storageBackends = [],
      backendObjs = [0 \<mapsto> sampleBackend (True, [(''alice'', ''secret'')])],
      sessions = [], threads = [], blocksizes = Map.empty, clientInfo = Map.empty,
      listening = True, serverError = UnknownSocketError, settings = storedSettings,
      trace = [Log InfoMsg ''Listening for GUI clients on port '']\<rparr>"

definition firstRunCore :: "sampleDb Core" where
  "firstRunCore =
     \<lparr>storage = None, configured = False, storageBackends = [(''SQLite'', 0)],
      backendObjs = [0 \<mapsto> sampleBackend (False, [])],
      sessions = [], threads = [], blocksizes = Map.empty, clientInfo = Map.empty,
      listening = True, serverError = UnknownSocketError, settings = firstRunSettings,
      trace = [Log WarningMsg
                 ''Core is currently not configured! Please connect with a Quassel Client for basic setup.'',
               Log InfoMsg ''Listening for GUI clients on port '']\<rparr>"

text \<open>
  The configured core with live sessions for the users 1 and 2, and a core on its first
  run that has a second backend to choose from.
\<close>

definition twoSessionCore :: "sampleDb Core" where
  "twoSessionCore =
     committedCore\<lparr>sessions := [(1, 0), (2, 1)],
                   threads := [\<lparr>user = 1, restore = False, running = True, clients = [7]\<rparr>,
                               \<lparr>user = 2, restore = False, running = True, clients = []\<rparr>]\<rparr>"

definition twoBackendCore :: "sampleDb Core" where
  "twoBackendCore =
     firstRunCore\<lparr>storageBackends := [(''PostgreSQL'', 1), (''SQLite'', 0)],
                  backendObjs := [0 \<mapsto> sampleBackend (False, []),
                                  1 \<mapsto> (sampleBackend (False, []))\<lparr>displayName := ''PostgreSQL''\<rparr>]\<rparr>"

text \<open>The two-backend core after \<open>initStorage\<close> has committed it to the backend at address 0.\<close>

definition twoBackendDone :: "sampleDb Core" where
  "twoBackendDone = snd (initDone (twoBackendCore\<lparr>storage := Some 0\<rparr>) 0 (sampleBackend (True, [])))"

text \<open>
  What the last event of the trace told a client, when that event is a reply: the socket
  and four fields of the reply.
\<close>

definition lastReply :: "'db Core \<Rightarrow> (socket \<times> QVariant \<times> QVariant \<times> QVariant \<times> QVariant) option" where
  "lastReply c =
     (case last (trace c) of
        Written s r \<Rightarrow> Some (s, valueQ r ''MsgType'', valueQ r ''Configured'',
                              valueQ r ''LoginEnabled'', valueQ r ''StorageBackends'')
      | Log l t \<Rightarrow> None
      | Closed s \<Rightarrow> None
      | Encrypted s \<Rightarrow> None
      | Compressed s \<Rightarrow> None
      | Unhooked s \<Rightarrow> None)"

text \<open>The events of the trace from position \<open>n\<close> on.\<close>

definition eventsFrom :: "nat \<Rightarrow> 'db Core \<Rightarrow> event list" where
  "eventsFrom n c = drop n (trace c)"

text \<open>The configured flag and the backend pointer of a core.\<close>

definition flagAndBackend :: "'db Core \<Rightarrow> bool \<times> nat option" where
  "flagAndBackend c = (configured c, storage c)"

text \<open>A client connects on socket \<open>s\<close> and the frames \<open>items\<close> arrive from it.\<close>

definition sampleClient :: "fault + sampleDb Core \<Rightarrow> socket \<Rightarrow> QVariant list \<Rightarrow> fault + sampleDb Core" where
  "sampleClient r s items = andThen r (\<lambda>c. clientHasData sampleEnv (incomingConnection c [s]) s items)"

section \<open>Properties\<close>

subsection \<open>Containers\<close>

lemma map_of_removeQ: "map_of (removeQ k m) = (map_of m)(k := None)"
  by (induction m) (auto simp: removeQ_def)

lemma map_of_insort_fst:
  "map_of (insort_key fst (k, v) xs) = (map_of xs)(k \<mapsto> v)" if "k \<notin> fst ` set xs"
  using that
proof (induction xs)
  case Nil
  then show ?case by simp
next
  case (Cons x xs)
  then have "fst x \<noteq> k" by auto
  with Cons show ?case
    by (cases x) (auto simp: fun_upd_twist)
qed

lemma map_of_insertQ: "map_of (insertQ k v m) = (map_of m)(k \<mapsto> v)"
proof -
  have "k \<notin> fst ` set (removeQ k m)" by (auto simp: removeQ_def)
  then show ?thesis
    by (simp add: insertQ_def map_of_insort_fst map_of_removeQ)
qed

lemma fst_insertQ: "fst ` set (insertQ k v m) = insert k (fst ` set m)"
  by (auto simp: insertQ_def removeQ_def set_insort_key image_iff)

lemma containsQ_set: "containsQ m k \<longleftrightarrow> k \<in> fst ` set m"
proof (cases "map_of m k")
  case None
  then have "k \<notin> fst ` set m" by (simp add: map_of_eq_None_iff)
  with None show ?thesis by (simp add: containsQ_def)
next
  case (Some v)
  then have "k \<in> fst ` set m" by (metis map_of_eq_None_iff option.distinct(1))
  with Some show ?thesis by (simp add: containsQ_def)
qed

lemma distinct_insort_fst:
  "k \<notin> fst ` set xs \<Longrightarrow> distinct (map fst xs) \<Longrightarrow> distinct (map fst (insort_key fst (k, v) xs))"
  by (induction xs) (auto simp: set_insort_key)

lemma distinct_insertQ: "distinct (map fst m) \<Longrightarrow> distinct (map fst (insertQ k v m))"
proof -
  assume "distinct (map fst m)"
  then have "distinct (map fst (removeQ k m))"
    by (simp add: removeQ_def distinct_map_filter)
  moreover have "k \<notin> fst ` set (removeQ k m)" by (auto simp: removeQ_def)
  ultimately show ?thesis
    by (simp add: insertQ_def distinct_insort_fst)
qed

subsection \<open>Single steps\<close>

lemma valueQ_insertQ: "valueQ (insertQ k v m) k' = (if k' = k then v else valueQ m k')"
  by (simp add: valueQ_def map_of_insertQ)

lemma initStorage_no_backend:
  "toString (valueQ dbSettings ''Backend'') = [] \<Longrightarrow>
   initStorage c dbSettings setup = Inr (False, c\<lparr>configured := False\<rparr>)"
  by (simp add: initStorage_def)

lemma initStorage_unregistered:
  "toString (valueQ dbSettings ''Backend'') \<noteq> [] \<Longrightarrow>
   map_of (storageBackends c) (toString (valueQ dbSettings ''Backend'')) = None \<Longrightarrow>
   initStorage c dbSettings setup =
     Inr (False, emit [Log ErrorMsg ''Selected storage backend is not available:''] (c\<lparr>configured := False\<rparr>))"
  by (simp add: initStorage_def)

lemma setupCore_storage_failed:
  "toString (valueQ (toMap v) ''AdminUser'') \<noteq> [] \<Longrightarrow>
   toString (valueQ (removeQ ''AdminUser'' (toMap v)) ''AdminPasswd'') \<noteq> [] \<Longrightarrow>
   initStorage c (removeQ ''AdminPasswd'' (removeQ ''AdminUser'' (toMap v))) True = Inr (False, c1) \<Longrightarrow>
   setupCore env c v = Inr (''Could not setup storage!'', c1)"
  by (simp add: setupCore_def Let_def)

lemma process_setup_rejected:
  "clientInfo c s = Some info \<Longrightarrow>
   map_of msg ''MsgType'' = Some (VString ''CoreSetupData'') \<Longrightarrow>
   setupCore env c (valueQ msg ''SetupData'') = Inr (e, c1) \<Longrightarrow> e \<noteq> [] \<Longrightarrow>
   processClientMessage env c s msg =
     Inr (emit [Written s (insertQ ''Error'' (VString e)
                 (insertQ ''MsgType'' (VString ''CoreSetupReject'') []))] c1)"
  by (simp add: processClientMessage_def containsQ_def valueQ_def)

lemma process_init_accepted:
  "map_of msg ''MsgType'' = Some (VString ''ClientInit'') \<Longrightarrow>
   \<not> clientVersion env msg < coreNeedsProtocol env \<Longrightarrow>
   initAckReply env c s = Inr r \<Longrightarrow>
   processClientMessage env c s msg =
     Inr (emit (Written s (insertQ ''MsgType'' (VString ''ClientInitAck'') r)
                # (if supportSsl env s \<and> toBool env (valueQ msg ''UseSsl'')
                   then [Log DebugMsg ''Starting TLS for Client:'', Encrypted s] else [])
                @ (if supportsCompression env \<and> toBool env (valueQ msg ''UseCompression'')
                   then [Compressed s, Log DebugMsg ''Using compression for Client: ''] else []))
            (c\<lparr>clientInfo := (clientInfo c)(s \<mapsto> msg)\<rparr>))"
  by (simp add: processClientMessage_def clientInit_def containsQ_def valueQ_def Let_def emit_def)

lemma process_login_null:
  "clientInfo c s = Some info \<Longrightarrow>
   map_of msg ''MsgType'' = Some (VString ''ClientLogin'') \<Longrightarrow>
   storage c = None \<Longrightarrow>
   processClientMessage env c s msg = Inl NullStorage"
  by (simp add: processClientMessage_def containsQ_def valueQ_def)

lemma initAckReply_configured:
  "configured c \<Longrightarrow> \<exists>r. initAckReply env c s = Inr r"
  by (simp add: initAckReply_def Let_def)

lemma initAckReply_unconfigured:
  assumes "\<not> configured c"
    and "backendList (backendObjs c) (map snd (storageBackends c)) = Inr bs"
  shows "\<exists>r. initAckReply env c s = Inr r
           \<and> valueQ r ''Configured'' = VBool False
           \<and> valueQ r ''LoginEnabled'' = VBool False
           \<and> valueQ r ''StorageBackends'' = VList bs"
  using assms by (simp add: initAckReply_def Let_def valueQ_insertQ)

lemma deleteOthers_apply:
  "deleteOthers a ps h p = (if p \<in> set ps \<and> p \<noteq> a then None else h p)"
  unfolding deleteOthers_def
  by (induction ps arbitrary: h) auto

lemma initDone_fields:
  "fst (initDone c a b) = True"
  "storage (snd (initDone c a b)) = Some a"
  "storageBackends (snd (initDone c a b)) = []"
  "backendObjs (snd (initDone c a b)) p
     = (if p \<in> snd ` set (storageBackends c) \<and> p \<noteq> a then None else ((backendObjs c)(a \<mapsto> b)) p)"
  by (simp_all add: initDone_def deleteOthers_apply)

lemma initFailed_fst: "fst (initFailed c a b) = False"
  by (simp add: initFailed_def)

lemma initStorage_cases:
  "initStorage c dbSettings setup = Inl DanglingPointer
   \<or> initStorage c dbSettings setup = Inr (False, c\<lparr>configured := False\<rparr>)
   \<or> initStorage c dbSettings setup =
        Inr (False, emit [Log ErrorMsg ''Selected storage backend is not available:''] (c\<lparr>configured := False\<rparr>))
   \<or> (\<exists>a b. map_of (storageBackends c) (toString (valueQ dbSettings ''Backend'')) = Some a
         \<and> toString (valueQ dbSettings ''Backend'') \<noteq> []
         \<and> (initStorage c dbSettings setup = Inr (initDone (c\<lparr>storage := Some a\<rparr>) a b)
            \<or> initStorage c dbSettings setup = Inr (initFailed (c\<lparr>storage := Some a\<rparr>) a b)))"
proof (cases "toString (valueQ dbSettings ''Backend'') = []")
  case True
  then show ?thesis by (simp add: initStorage_def)
next
  case name: False
  show ?thesis
  proof (cases "map_of (storageBackends c) (toString (valueQ dbSettings ''Backend''))")
    case None
    with name show ?thesis by (simp add: initStorage_def)
  next
    case (Some a)
    show ?thesis
    proof (cases "backendObjs c a")
      case None
      with name Some show ?thesis by (simp add: initStorage_def)
    next
      case obj: (Some b)
      obtain ok1 db1 where i1: "st_init b dbSettings (db b) = (ok1, db1)" by (cases "st_init b dbSettings (db b)")
      obtain ok2 db2 where s2: "st_setup b dbSettings db1 = (ok2, db2)" by (cases "st_setup b dbSettings db1")
      obtain ok3 db3 where i3: "st_init b dbSettings db2 = (ok3, db3)" by (cases "st_init b dbSettings db2")
      let ?c1 = "c\<lparr>storage := Some a\<rparr>" and ?r = "initStorage c dbSettings setup"
      have "?r = Inr (initDone ?c1 a (b\<lparr>db := db1\<rparr>)) \<or> ?r = Inr (initDone ?c1 a (b\<lparr>db := db3\<rparr>))
          \<or> ?r = Inr (initFailed ?c1 a (b\<lparr>db := db1\<rparr>)) \<or> ?r = Inr (initFailed ?c1 a (b\<lparr>db := db2\<rparr>))
          \<or> ?r = Inr (initFailed ?c1 a (b\<lparr>db := db3\<rparr>))"
        using name Some obj i1 s2 i3 by (simp add: initStorage_def Let_def)
      with name Some show ?thesis by blast
    qed
  qed
qed


lemma initStorage_success:
  assumes "initStorage c dbSettings setup = Inr (True, c1)"
  shows "\<exists>a b. toString (valueQ dbSettings ''Backend'') \<noteq> []
             \<and> c1 = snd (initDone (c\<lparr>storage := Some a\<rparr>) a b)"
proof -
  from initStorage_cases [of c dbSettings "setup"] assms
  obtain a b where "toString (valueQ dbSettings ''Backend'') \<noteq> []"
    and "Inr (True, c1) = Inr (initDone (c\<lparr>storage := Some a\<rparr>) a b)
       \<or> Inr (True, c1) = (Inr (initFailed (c\<lparr>storage := Some a\<rparr>) a b) :: fault + (bool \<times> 'a Core))"
    by auto
  moreover have "(True, c1) \<noteq> initFailed (c\<lparr>storage := Some a\<rparr>) a b"
    by (simp add: initFailed_def)
  ultimately have "toString (valueQ dbSettings ''Backend'') \<noteq> []
      \<and> c1 = snd (initDone (c\<lparr>storage := Some a\<rparr>) a b)"
    by (metis Inr_inject snd_conv)
  then show ?thesis by blast
qed

subsection \<open>The sample deployment\<close>

lemma sampleBackend_simps:
  "displayName (sampleBackend d) = ''SQLite''"
  "isAvailable (sampleBackend d) = True"
  "db (sampleBackend d) = d"
  "st_init (sampleBackend d) s x = (fst x, x)"
  "st_setup (sampleBackend d) s x = (True, (True, snd x))"
  "st_addUser (sampleBackend d) u p x = (fst x, snd x @ [(u, p)])"
  "st_validateUser (sampleBackend d) u p x =
     (if (u, p) \<in> set (snd x) then 1 + int (length (takeWhile (\<lambda>e. e \<noteq> (u, p)) (snd x))) else 0)"
  "(sampleBackend d)\<lparr>db := d'\<rparr> = sampleBackend d'"
  by (simp_all add: sampleBackend_def)

lemma twoBackend_commit:
  "initStorage twoBackendCore [(''Backend'', VString ''SQLite'')] True
     = Inr (initDone (twoBackendCore\<lparr>storage := Some 0\<rparr>) 0 (sampleBackend (True, [])))"
  by (simp add: initStorage_def twoBackendCore_def firstRunCore_def valueQ_def Let_def sampleBackend_simps)

lemmas start_defs = 
  instance_first_def Core_new_def registerStorageBackend_def init_def initStorage_def
  initDone_def initFailed_def deleteOthers_def migrateOld_def startListening_def serverListen_def emit_def
  insertQ_def removeQ_def valueQ_def containsQ_def Let_def
  sampleEnv_def sampleBackend_def storedSettings_def firstRunSettings_def

lemma committedRun_eq: "committedRun = Inr committedCore"
  by (simp add: committedRun_def committedCore_def start_defs)

lemma firstRun_eq: "firstRun = Inr firstRunCore"
  by (simp add: firstRun_def firstRunCore_def start_defs)

lemma initMsg_facts:
  "map_of (initMsg 10) ''MsgType'' = Some (VString ''ClientInit'')"
  "\<not> clientVersion sampleEnv (initMsg 10) < coreNeedsProtocol sampleEnv"
  "\<not> (supportSsl sampleEnv s \<and> toBool sampleEnv (valueQ (initMsg 10) ''UseSsl''))"
  "\<not> (supportsCompression sampleEnv \<and> toBool sampleEnv (valueQ (initMsg 10) ''UseCompression''))"
  by (simp_all add: clientVersion_def initMsg_def containsQ_def valueQ_def sampleEnv_def supportSsl_def)

lemma setupMsg_facts:
  "map_of (setupMsg b) ''MsgType'' = Some (VString ''CoreSetupData'')"
  "toString (valueQ (toMap (valueQ (setupMsg b) ''SetupData'')) ''AdminUser'') \<noteq> []"
  "toString (valueQ (removeQ ''AdminUser'' (toMap (valueQ (setupMsg b) ''SetupData''))) ''AdminPasswd'') \<noteq> []"
  "removeQ ''AdminPasswd'' (removeQ ''AdminUser'' (toMap (valueQ (setupMsg b) ''SetupData'')))
     = [(''Backend'', VString b)]"
  by (simp_all add: setupMsg_def valueQ_def removeQ_def)

subsection \<open>Storage commitment\<close>

text \<open>
  C1. The specification says that the active backend pointer is non-null exactly when \<^verbatim>\<open>configured\<close>
  is true, in every reachable state. The core below is the one that \<^verbatim>\<open>Core::instance()\<close>
  builds on stored settings: it is configured, with its backend at address 0. From it, each
  of the two early exits of \<open>initStorage\<close> (an empty backend name, a name that is not
  registered), and \<open>setupCore\<close> on the setup data a client sends, reports failure and
  clears \<^verbatim>\<open>configured\<close> while \<^verbatim>\<open>storage\<close> still points to the backend.
\<close>

theorem C1_failed_call_clears_flag_keeps_backend:
  "committedRun = Inr committedCore
   \<and> configured committedCore
   \<and> storage committedCore = Some 0
   \<and> initStorage committedCore [] True = Inr (False, committedCore\<lparr>configured := False\<rparr>)
   \<and> initStorage committedCore [(''Backend'', VString ''MySQL'')] True
       = Inr (False, emit [Log ErrorMsg ''Selected storage backend is not available:'']
                       (committedCore\<lparr>configured := False\<rparr>))
   \<and> setupCore sampleEnv committedCore
         (VMap [(''AdminPasswd'', VString ''secret''), (''AdminUser'', VString ''admin''),
                (''Backend'', VString ''SQLite'')])
       = Inr (''Could not setup storage!'',
              emit [Log ErrorMsg ''Selected storage backend is not available:'']
                (committedCore\<lparr>configured := False\<rparr>))
   \<and> storage (committedCore\<lparr>configured := False\<rparr>) = Some 0
   \<and> \<not> configured (committedCore\<lparr>configured := False\<rparr>)"
proof -
  let ?v = "VMap [(''AdminPasswd'', VString ''secret''), (''AdminUser'', VString ''admin''),
                (''Backend'', VString ''SQLite'')]"
  have a: "initStorage committedCore [] True = Inr (False, committedCore\<lparr>configured := False\<rparr>)"
    by (rule initStorage_no_backend) (simp add: valueQ_def)
  have b: "initStorage committedCore [(''Backend'', VString ''MySQL'')] True =
      Inr (False, emit [Log ErrorMsg ''Selected storage backend is not available:'']
                     (committedCore\<lparr>configured := False\<rparr>))"
    by (rule initStorage_unregistered) (simp_all add: valueQ_def committedCore_def)
  have c: "initStorage committedCore (removeQ ''AdminPasswd'' (removeQ ''AdminUser'' (toMap ?v))) True =
      Inr (False, emit [Log ErrorMsg ''Selected storage backend is not available:'']
                     (committedCore\<lparr>configured := False\<rparr>))"
    by (rule initStorage_unregistered) (simp_all add: valueQ_def committedCore_def removeQ_def)
  have d: "setupCore sampleEnv committedCore ?v
      = Inr (''Could not setup storage!'', emit [Log ErrorMsg ''Selected storage backend is not available:'']
                     (committedCore\<lparr>configured := False\<rparr>))"
    by (rule setupCore_storage_failed [OF _ _ c]) (simp_all add: valueQ_def removeQ_def)
  have e: "configured committedCore" "storage committedCore = Some 0"
    by (simp_all add: committedCore_def)
  from a b d e show ?thesis
    by (simp add: committedRun_eq)
qed

text \<open>
  C4, as stated, at a concrete input: the first \<open>initStorage\<close> on the settings succeeds,
  the second one on the same settings reports failure.
\<close>

theorem C4_retry_reports_failure:
  "initStorage twoBackendCore [(''Backend'', VString ''SQLite'')] True = Inr (True, twoBackendDone)
   \<and> initStorage twoBackendDone [(''Backend'', VString ''SQLite'')] True
       = Inr (False, emit [Log ErrorMsg ''Selected storage backend is not available:'']
                       (twoBackendDone\<lparr>configured := False\<rparr>))"
proof -
  have "initDone (twoBackendCore\<lparr>storage := Some 0\<rparr>) 0 (sampleBackend (True, [])) = (True, twoBackendDone)"
    unfolding twoBackendDone_def by (rule prod_eqI) (simp_all add: initDone_fields)
  then have first: "initStorage twoBackendCore [(''Backend'', VString ''SQLite'')] True = Inr (True, twoBackendDone)"
    by (simp only: twoBackend_commit)
  have "storageBackends twoBackendDone = []"
    by (simp add: twoBackendDone_def initDone_fields)
  then have "initStorage twoBackendDone [(''Backend'', VString ''SQLite'')] True
       = Inr (False, emit [Log ErrorMsg ''Selected storage backend is not available:'']
                       (twoBackendDone\<lparr>configured := False\<rparr>))"
    by (intro initStorage_unregistered) (simp_all add: valueQ_def)
  with first show ?thesis by simp
qed

text \<open>
  C4, amended. When a first \<open>initStorage\<close> succeeds it leaves \<^verbatim>\<open>storage\<close> on the chosen
  backend, the registry empty and every other backend that was registered deleted. A second
  \<open>initStorage\<close> on the same settings, with either setup flag, then reports failure,
  because the name is no longer registered; it keeps the same backend pointer and the same
  store of backend objects (nothing is created again, nothing deleted comes back) and the
  registry stays empty.
\<close>

theorem C4_retry_after_commit:
  assumes "initStorage c dbSettings setup = Inr (True, c1)"
  shows "\<exists>a c2. storage c1 = Some a
           \<and> storageBackends c1 = []
           \<and> dom (backendObjs c1) \<inter> snd ` set (storageBackends c) \<subseteq> {a}
           \<and> initStorage c1 dbSettings setup2 = Inr (False, c2)
           \<and> storage c2 = Some a
           \<and> backendObjs c2 = backendObjs c1
           \<and> storageBackends c2 = []"
proof -
  from initStorage_success [OF assms] obtain a b
    where name: "toString (valueQ dbSettings ''Backend'') \<noteq> []"
      and c1: "c1 = snd (initDone (c\<lparr>storage := Some a\<rparr>) a b)"
    by blast
  have st: "storage c1 = Some a" "storageBackends c1 = []"
    unfolding c1 by (simp_all only: initDone_fields)
  have gone: "dom (backendObjs c1) \<inter> snd ` set (storageBackends c) \<subseteq> {a}"
  proof
    fix p assume p: "p \<in> dom (backendObjs c1) \<inter> snd ` set (storageBackends c)"
    show "p \<in> {a}"
    proof (rule ccontr)
      assume "p \<notin> {a}"
      then have "p \<noteq> a" by simp
      with p have "backendObjs c1 p = None"
        unfolding c1 by (simp add: initDone_fields)
      with p show False by auto
    qed
  qed
  let ?c2 = "emit [Log ErrorMsg ''Selected storage backend is not available:''] (c1\<lparr>configured := False\<rparr>)"
  have "map_of (storageBackends c1) (toString (valueQ dbSettings ''Backend'')) = None"
    by (simp add: st)
  from initStorage_unregistered [OF name this]
  have retry: "initStorage c1 dbSettings setup2 = Inr (False, ?c2)" .
  have c2: "storage ?c2 = Some a" "backendObjs ?c2 = backendObjs c1" "storageBackends ?c2 = []"
    by (simp_all add: emit_def st)
  from st gone retry c2 show ?thesis by blast
qed

theorem C4_retry_after_commit_witness:
  "\<exists>c1 c2. initStorage twoBackendCore [(''Backend'', VString ''SQLite'')] True = Inr (True, c1)
         \<and> storage c1 = Some 0
         \<and> backendObjs c1 1 = None
         \<and> initStorage c1 [(''Backend'', VString ''SQLite'')] True = Inr (False, c2)
         \<and> storage c2 = Some 0
         \<and> backendObjs c2 = backendObjs c1
         \<and> storageBackends c2 = []"
proof -
  define c1 where "c1 = snd (initDone (twoBackendCore\<lparr>storage := Some 0\<rparr>) 0 (sampleBackend (True, [])))"
  have "initDone (twoBackendCore\<lparr>storage := Some 0\<rparr>) 0 (sampleBackend (True, [])) = (True, c1)"
    unfolding c1_def by (rule prod_eqI) (simp_all add: initDone_fields)
  then have first: "initStorage twoBackendCore [(''Backend'', VString ''SQLite'')] True = Inr (True, c1)"
    by (simp only: twoBackend_commit)
  have c1: "storage c1 = Some 0" "backendObjs c1 1 = None"
    unfolding c1_def by (simp_all add: initDone_fields twoBackendCore_def)
  from C4_retry_after_commit [OF first, of True]
  obtain a c2 where r: "storage c1 = Some a"
      "initStorage c1 [(''Backend'', VString ''SQLite'')] True = Inr (False, c2)"
      "storage c2 = Some a" "backendObjs c2 = backendObjs c1" "storageBackends c2 = []"
    by blast
  from r(1) c1(1) have "a = 0" by simp
  with first c1 r show ?thesis by blast
qed

subsection \<open>Faults\<close>

text \<open>
  C2. The specification says that no sequence of frames crashes the core. On a core in its first run
  (no backend committed, so \<^verbatim>\<open>storage\<close> is null) a client that sends \<^verbatim>\<open>ClientInit\<close> and
  then \<^verbatim>\<open>ClientLogin\<close> makes \<open>processClientMessage\<close> call \<^verbatim>\<open>validateUser\<close> through the
  null pointer.
\<close>

theorem C2_login_on_first_run_faults:
  "sampleClient firstRun 7 [VMap (initMsg 10), VMap (loginMsg ''alice'' ''secret'')] = Inl NullStorage"
proof -
  define c1 where "c1 = incomingConnection firstRunCore [7]"
  have c1: "storage c1 = None" "\<not> configured c1" "blocksizes c1 7 = Some 0"
    "backendList (backendObjs c1) (map snd (storageBackends c1))
       = Inr [VMap (insertQ ''Description'' (VString (description (sampleBackend (False, []))))
               (insertQ ''DisplayName'' (VString (displayName (sampleBackend (False, [])))) []))]"
    by (simp_all add: c1_def firstRunCore_def emit_def)
  obtain r where r: "initAckReply sampleEnv c1 7 = Inr r"
    using initAckReply_unconfigured [OF c1(2) c1(4)] by blast
  have v: "\<not> clientVersion sampleEnv (initMsg 10) < coreNeedsProtocol sampleEnv"
    by (simp add: clientVersion_def initMsg_def containsQ_def valueQ_def sampleEnv_def)
  have t: "map_of (initMsg 10) ''MsgType'' = Some (VString ''ClientInit'')"
    by (simp add: initMsg_def)
  obtain c2 where step1: "processClientMessage sampleEnv c1 7 (initMsg 10) = Inr c2"
    and c2: "storage c2 = None" "blocksizes c2 7 = Some 0" "clientInfo c2 7 = Some (initMsg 10)"
    using process_init_accepted [OF t v r] c1 by (simp add: emit_def)
  have l: "map_of (loginMsg ''alice'' ''secret'') ''MsgType'' = Some (VString ''ClientLogin'')"
    by (simp add: loginMsg_def)
  have step2: "processClientMessage sampleEnv c2 7 (loginMsg ''alice'' ''secret'') = Inl NullStorage"
    by (rule process_login_null [OF c2(3) l c2(1)])
  have "sampleClient firstRun 7 [VMap (initMsg 10), VMap (loginMsg ''alice'' ''secret'')]
      = clientHasData sampleEnv c1 7 [VMap (initMsg 10), VMap (loginMsg ''alice'' ''secret'')]"
    by (simp add: sampleClient_def andThen_def firstRun_eq c1_def)
  then show ?thesis
    by (simp add: clientHasData_def c1 step1 c2 step2)
qed

subsection \<open>The init reply\<close>

text \<open>
  C7. The specification says that the \<^verbatim>\<open>ClientInitAck\<close> of an unconfigured core lists at least one
  storage backend. On the configured sample core, a client's setup request fails and
  clears \<^verbatim>\<open>configured\<close> (see C1); the registry was emptied when the backend was committed,
  so the next client's \<^verbatim>\<open>ClientInit\<close> is answered with \<^verbatim>\<open>Configured\<close> false,
  \<^verbatim>\<open>LoginEnabled\<close> false and an empty \<^verbatim>\<open>StorageBackends\<close> list.
\<close>

theorem C7_empty_backend_list_after_failed_setup:
  "map_sum id lastReply
     (sampleClient (sampleClient committedRun 7 [VMap (initMsg 10), VMap (setupMsg ''SQLite'')])
        8 [VMap (initMsg 10)])
   = Inr (Some (8, VString ''ClientInitAck'', VBool False, VBool False, VList []))"
proof -
  define c1 where "c1 = incomingConnection committedCore [7]"
  have c1: "configured c1" "storageBackends c1 = []" "blocksizes c1 7 = Some 0"
    by (simp_all add: c1_def committedCore_def emit_def)
  obtain r1 where r1: "initAckReply sampleEnv c1 7 = Inr r1"
    using initAckReply_configured [OF c1(1)] by blast
  define c2 where "c2 = emit [Written 7 (insertQ ''MsgType'' (VString ''ClientInitAck'') r1)]
                          (c1\<lparr>clientInfo := (clientInfo c1)(7 \<mapsto> initMsg 10)\<rparr>)"
  have step1: "processClientMessage sampleEnv c1 7 (initMsg 10) = Inr c2"
    using process_init_accepted [OF initMsg_facts(1,2) r1] initMsg_facts(3) [of 7] initMsg_facts(4)
    by (simp add: c2_def)
  have c2: "storageBackends c2 = []" "blocksizes c2 7 = Some 0" "clientInfo c2 7 = Some (initMsg 10)"
    by (simp_all add: c2_def emit_def c1)
  define c3 where "c3 = emit [Log ErrorMsg ''Selected storage backend is not available:'']
                          (c2\<lparr>configured := False\<rparr>)"
  have "initStorage c2 [(''Backend'', VString ''SQLite'')] True = Inr (False, c3)"
    unfolding c3_def by (rule initStorage_unregistered) (simp_all add: valueQ_def c2)
  then have "setupCore sampleEnv c2 (valueQ (setupMsg ''SQLite'') ''SetupData'')
      = Inr (''Could not setup storage!'', c3)"
    by (intro setupCore_storage_failed setupMsg_facts) (simp add: setupMsg_facts)
  from process_setup_rejected [OF c2(3) setupMsg_facts(1) this]
  obtain c4 where step2: "processClientMessage sampleEnv c2 7 (setupMsg ''SQLite'') = Inr c4"
    and c4: "\<not> configured c4" "storageBackends c4 = []" "blocksizes c4 7 = Some 0"
    by (simp add: emit_def c3_def c2)
  have first: "sampleClient committedRun 7 [VMap (initMsg 10), VMap (setupMsg ''SQLite'')] = Inr c4"
  proof -
    have "sampleClient committedRun 7 [VMap (initMsg 10), VMap (setupMsg ''SQLite'')]
        = clientHasData sampleEnv c1 7 [VMap (initMsg 10), VMap (setupMsg ''SQLite'')]"
      by (simp add: sampleClient_def andThen_def committedRun_eq c1_def)
    then show ?thesis
      by (simp add: clientHasData_def c1 step1 c2 step2 c4)
  qed
  define c5 where "c5 = incomingConnection c4 [8]"
  have c5: "\<not> configured c5" "blocksizes c5 8 = Some 0"
    "backendList (backendObjs c5) (map snd (storageBackends c5)) = Inr []"
    by (simp_all add: c5_def emit_def c4)
  obtain r where r: "initAckReply sampleEnv c5 8 = Inr r"
    and rv: "valueQ r ''Configured'' = VBool False" "valueQ r ''LoginEnabled'' = VBool False"
      "valueQ r ''StorageBackends'' = VList []"
    using initAckReply_unconfigured [OF c5(1) c5(3)] by blast
  define c6 where "c6 = emit [Written 8 (insertQ ''MsgType'' (VString ''ClientInitAck'') r)]
                          (c5\<lparr>clientInfo := (clientInfo c5)(8 \<mapsto> initMsg 10)\<rparr>)"
  have step3: "processClientMessage sampleEnv c5 8 (initMsg 10) = Inr c6"
    using process_init_accepted [OF initMsg_facts(1,2) r] initMsg_facts(3) [of 8] initMsg_facts(4)
    by (simp add: c6_def)
  have c6: "blocksizes c6 8 = Some 0"
    "last (trace c6) = Written 8 (insertQ ''MsgType'' (VString ''ClientInitAck'') r)"
    by (simp_all add: c6_def emit_def c5)
  have "sampleClient (Inr c4) 8 [VMap (initMsg 10)] = clientHasData sampleEnv c5 8 [VMap (initMsg 10)]"
    by (simp add: sampleClient_def andThen_def c5_def)
  then have "sampleClient (Inr c4) 8 [VMap (initMsg 10)] = Inr c6"
    by (simp add: clientHasData_def c5 step3 c6)
  then show ?thesis
    by (simp add: first lastReply_def c6 valueQ_insertQ rv)
qed

subsection \<open>The session registry\<close>

lemma registryOk_iff:
  "registryOk c \<longleftrightarrow>
     (\<forall>e \<in> set (sessions c). snd e < length (threads c) \<and> user (threads c ! snd e) = fst e)
     \<and> (\<forall>p < length (threads c). map_of (sessions c) (user (threads c ! p)) = Some p)"
  by (auto simp: registryOk_def Let_def list_all_iff)

lemma registryOk_distinct:
  assumes "registryOk c"
  shows "distinct (map user (threads c))"
proof -
  have reg: "\<forall>p<length (threads c). map_of (sessions c) (user (threads c ! p)) = Some p"
    using assms by (simp add: registryOk_iff)
  show ?thesis
    unfolding distinct_conv_nth
  proof (intro allI impI)
    fix i j
    assume i: "i < length (map user (threads c))" and j: "j < length (map user (threads c))"
      and ne: "i \<noteq> j"
    from reg i have a: "map_of (sessions c) (user (threads c ! i)) = Some i" by simp
    from reg j have b: "map_of (sessions c) (user (threads c ! j)) = Some j" by simp
    have "user (threads c ! i) \<noteq> user (threads c ! j)"
      using a b ne by (metis option.inject)
    with i j show "map user (threads c) ! i \<noteq> map user (threads c) ! j" by simp
  qed
qed

lemma registryOk_users:
  assumes "registryOk c"
  shows "set (map user (threads c)) = fst ` set (sessions c)"
proof
  show "set (map user (threads c)) \<subseteq> fst ` set (sessions c)"
  proof
    fix u assume "u \<in> set (map user (threads c))"
    then obtain p where p: "p < length (threads c)" "u = user (threads c ! p)"
      by (auto simp: in_set_conv_nth)
    with assms have "map_of (sessions c) u = Some p" by (simp add: registryOk_iff)
    then have "(u, p) \<in> set (sessions c)" by (rule map_of_SomeD)
    then show "u \<in> fst ` set (sessions c)" by force
  qed
  show "fst ` set (sessions c) \<subseteq> set (map user (threads c))"
  proof
    fix u assume "u \<in> fst ` set (sessions c)"
    then obtain e where e: "e \<in> set (sessions c)" "fst e = u" by auto
    with assms have "snd e < length (threads c)" "user (threads c ! snd e) = u"
      by (auto simp: registryOk_iff)
    then have "threads c ! snd e \<in> set (threads c)" "user (threads c ! snd e) = u"
      by simp_all
    then show "u \<in> set (map user (threads c))" by force
  qed
qed

lemma registryOk_emit: "registryOk (emit es c) = registryOk c"
  by (simp add: registryOk_def emit_def)

lemma registryOk_sockets:
  "registryOk (c\<lparr>blocksizes := b, clientInfo := i\<rparr>) = registryOk c"
  by (simp add: registryOk_def)

lemma set_insertQ: "set (insertQ k v m) = insert (k, v) {e \<in> set m. fst e \<noteq> k}"
  by (auto simp: insertQ_def removeQ_def set_insort_key)

lemma createSession_old:
  "containsQ (sessions c) uid \<Longrightarrow>
   createSession c uid rst =
     (None, emit [Log WarningMsg ''Calling createSession() when a session for the user already exists!''] c)"
  by (simp add: createSession_def)

lemma createSession_new:
  "\<not> containsQ (sessions c) uid \<Longrightarrow>
   createSession c uid rst =
     (Some (length (threads c)),
      c\<lparr>sessions := insertQ uid (length (threads c)) (sessions c),
        threads := threads c @ [\<lparr>user = uid, restore = rst, running = True, clients = []\<rparr>]\<rparr>)"
  by (simp add: createSession_def Let_def)

lemma registryOk_createSession:
  assumes "registryOk c"
  shows "registryOk (snd (createSession c uid rst))"
proof (cases "containsQ (sessions c) uid")
  case True
  with assms show ?thesis by (simp add: createSession_old registryOk_emit)
next
  case False
  then have fresh: "uid \<notin> fst ` set (sessions c)" by (simp add: containsQ_set)
  let ?n = "length (threads c)"
  let ?t = "\<lparr>user = uid, restore = rst, running = True, clients = []\<rparr>"
  let ?c = "c\<lparr>sessions := insertQ uid ?n (sessions c), threads := threads c @ [?t]\<rparr>"
  have old: "user (threads c ! p) \<noteq> uid" if "p < ?n" for p
  proof -
    from assms that have "map_of (sessions c) (user (threads c ! p)) = Some p"
      by (simp add: registryOk_iff)
    then have "(user (threads c ! p), p) \<in> set (sessions c)" by (rule map_of_SomeD)
    with fresh show ?thesis by force
  qed
  have a: "snd e < length (threads ?c) \<and> user (threads ?c ! snd e) = fst e"
    if "e \<in> set (sessions ?c)" for e
  proof -
    from that consider "e = (uid, ?n)" | "e \<in> set (sessions c)"
      by (auto simp: set_insertQ)
    then show ?thesis
    proof cases
      case 1
      then show ?thesis by simp
    next
      case 2
      with assms have "snd e < ?n" "user (threads c ! snd e) = fst e"
        by (auto simp: registryOk_iff)
      then show ?thesis by (simp add: nth_append)
    qed
  qed
  have b: "map_of (sessions ?c) (user (threads ?c ! p)) = Some p"
    if "p < length (threads ?c)" for p
  proof -
    from that consider "p = ?n" | "p < ?n" by force
    then show ?thesis
    proof cases
      case 1
      then show ?thesis by (simp add: map_of_insertQ)
    next
      case 2
      with assms have "map_of (sessions c) (user (threads c ! p)) = Some p"
        by (simp add: registryOk_iff)
      with 2 old [OF 2] show ?thesis by (simp add: map_of_insertQ nth_append)
    qed
  qed
  have "registryOk ?c"
    unfolding registryOk_iff using a b by blast
  with False show ?thesis by (simp add: createSession_new)
qed

lemma registryOk_addClient:
  assumes "registryOk c" and "p < length (threads c)"
  shows "registryOk (c\<lparr>threads := (threads c)[p := addClient s (threads c ! p)]\<rparr>)"
proof -
  have "map user ((threads c)[p := addClient s (threads c ! p)]) = map user (threads c)"
    using assms(2) by (simp add: map_update addClient_def list_update_same_conv)
  with assms(1) show ?thesis
    by (simp add: registryOk_def)
qed

subsection \<open>The handshake\<close>

text \<open>
  C6. A \<^verbatim>\<open>ClientInit\<close> message whose negotiated protocol version is below
  \<^verbatim>\<open>Global::coreNeedsProtocol\<close> is answered with a \<^verbatim>\<open>ClientInitReject\<close> that carries an
  \<^verbatim>\<open>Error\<close> string, and the socket is closed. Nothing else happens: the reply, one warning
  and the close are the only new events, so no \<^verbatim>\<open>ClientInitAck\<close> is written, and the
  registry, the session threads and the per-socket tables are as before. The negotiated
  version is the \<^verbatim>\<open>ProtocolVersion\<close> field when the message has one; otherwise it is 1 for
  a \<^verbatim>\<open>ClientBuild\<close> of at least 732 and 0 below.
\<close>

theorem C6_old_client_rejected:
  assumes "map_of msg ''MsgType'' = Some (VString ''ClientInit'')"
    and "clientVersion env msg < coreNeedsProtocol env"
  shows "processClientMessage env c s msg =
           Inr (emit [Written s [(''Error'', VString (tooOldText env)),
                                 (''MsgType'', VString ''ClientInitReject'')],
                      Log WarningMsg ''Client too old, rejecting.'',
                      Closed s] c)
         \<and> clientVersion env msg =
             (case map_of msg ''ProtocolVersion'' of
                Some v \<Rightarrow> toUInt env v
              | None \<Rightarrow> if 732 \<le> toUInt env (valueQ msg ''ClientBuild'') then 1 else 0)"
  using assms
  by (simp add: processClientMessage_def clientInit_def containsQ_def valueQ_def clientVersion_def
      insertQ_def removeQ_def split: option.splits)

theorem C6_old_client_rejected_witness:
  "processClientMessage sampleEnv firstRunCore 7 (initMsg 5) =
     Inr (emit [Written 7 [(''Error'', VString (tooOldText sampleEnv)),
                           (''MsgType'', VString ''ClientInitReject'')],
                Log WarningMsg ''Client too old, rejecting.'',
                Closed 7] firstRunCore)
   \<and> clientVersion sampleEnv (initMsg 5) = 5"
proof -
  have t: "map_of (initMsg 5) ''MsgType'' = Some (VString ''ClientInit'')"
    by (simp add: initMsg_def)
  have v: "clientVersion sampleEnv (initMsg 5) < coreNeedsProtocol sampleEnv"
    by (simp add: clientVersion_def initMsg_def containsQ_def valueQ_def sampleEnv_def)
  show ?thesis
    using C6_old_client_rejected [OF t v, of firstRunCore 7] by (simp add: initMsg_def)
qed

text \<open>
  C8. Two \<^verbatim>\<open>ClientLogin\<close> messages for which \<^verbatim>\<open>validateUser\<close> returns 0, whatever the
  user names and passwords that made it fail, on whatever sockets and in whatever states
  of an initialised connection: each is answered with the same payload, the constant
  \<open>loginRejectReply\<close>, and nothing else changes.
\<close>

theorem C8_login_reject_uniform:
  assumes "clientInfo c1 s1 = Some info1" and "clientInfo c2 s2 = Some info2"
    and "storage c1 = Some a1" and "backendObjs c1 a1 = Some b1"
    and "storage c2 = Some a2" and "backendObjs c2 a2 = Some b2"
    and "map_of m1 ''MsgType'' = Some (VString ''ClientLogin'')"
    and "map_of m2 ''MsgType'' = Some (VString ''ClientLogin'')"
    and "st_validateUser b1 (toString (valueQ m1 ''User'')) (toString (valueQ m1 ''Password'')) (db b1) = 0"
    and "st_validateUser b2 (toString (valueQ m2 ''User'')) (toString (valueQ m2 ''Password'')) (db b2) = 0"
  shows "processClientMessage env c1 s1 m1 = Inr (emit [Written s1 loginRejectReply] c1)
       \<and> processClientMessage env c2 s2 m2 = Inr (emit [Written s2 loginRejectReply] c2)"
  using assms
  by (simp add: processClientMessage_def containsQ_def valueQ_def)

text \<open>
  C10, amended. On a socket that has completed the init exchange, a message whose
  \<^verbatim>\<open>MsgType\<close> compares unequal, under \<^verbatim>\<open>QVariant::operator==\<close>, to each of
  \<^verbatim>\<open>"ClientInit"\<close>, \<^verbatim>\<open>"CoreSetupData"\<close> and \<^verbatim>\<open>"ClientLogin"\<close> leaves the core exactly as
  it was: no event is added to the trace (no reply, no close, no log entry) and no field
  of the core changes. Every string other than the three compares unequal to each.
\<close>

theorem C10_unknown_message_ignored:
  assumes "clientInfo c s = Some info"
    and "map_of msg ''MsgType'' = Some t"
    and "\<not> eqString env t ''ClientInit''"
    and "\<not> eqString env t ''CoreSetupData''"
    and "\<not> eqString env t ''ClientLogin''"
  shows "processClientMessage env c s msg = Inr c
       \<and> (\<forall>u. u \<notin> {''ClientInit'', ''CoreSetupData'', ''ClientLogin''} \<longrightarrow>
              \<not> eqString env (VString u) ''ClientInit''
              \<and> \<not> eqString env (VString u) ''CoreSetupData''
              \<and> \<not> eqString env (VString u) ''ClientLogin'')"
  using assms by (simp add: processClientMessage_def containsQ_def valueQ_def)

lemma setupClientSession_old:
  "map_of (sessions c) uid = Some p \<Longrightarrow> p < length (threads c) \<Longrightarrow>
   setupClientSession env c s uid =
     Inr (c\<lparr>threads := (threads c)[p := addClient s (threads c ! p)],
            blocksizes := (blocksizes c)(s := None),
            clientInfo := (clientInfo c)(s := None),
            trace := trace c @ [Unhooked s]\<rparr>)"
  by (simp add: setupClientSession_def containsQ_def emit_def)

lemma setupClientSession_result:
  assumes "setupClientSession env c s uid = Inr c'"
  shows "\<exists>c1 p. c1 = (if containsQ (sessions c) uid then c
                        else snd (createSession c uid (defaultRestore env)))
            \<and> p < length (threads c1)
            \<and> c' = c1\<lparr>threads := (threads c1)[p := addClient s (threads c1 ! p)],
                       blocksizes := (blocksizes c1)(s := None),
                       clientInfo := (clientInfo c1)(s := None),
                       trace := trace c1 @ [Unhooked s]\<rparr>"
proof (cases "containsQ (sessions c) uid")
  case True
  then obtain p where p: "map_of (sessions c) uid = Some p"
    by (auto simp: containsQ_def split: option.splits)
  show ?thesis
  proof (cases "p < length (threads c)")
    case True
    from setupClientSession_old [OF p True, of env s] assms
    have "c' = c\<lparr>threads := (threads c)[p := addClient s (threads c ! p)],
                       blocksizes := (blocksizes c)(s := None),
                       clientInfo := (clientInfo c)(s := None),
                       trace := trace c @ [Unhooked s]\<rparr>"
      by simp
    with True \<open>containsQ (sessions c) uid\<close> show ?thesis by auto
  next
    case False
    with p \<open>containsQ (sessions c) uid\<close> have "setupClientSession env c s uid = Inl DanglingPointer"
      by (simp add: setupClientSession_def emit_def Let_def)
    with assms show ?thesis by simp
  qed
next
  case False
  define c1 where "c1 = snd (createSession c uid (defaultRestore env))"
  have cs: "createSession c uid (defaultRestore env) = (Some (length (threads c)), c1)"
    using False by (simp add: c1_def createSession_new)
  have len: "length (threads c) < length (threads c1)"
    using False by (simp add: c1_def createSession_new)
  from False cs len
  have "setupClientSession env c s uid =
      Inr (c1\<lparr>threads := (threads c1)[length (threads c) := addClient s (threads c1 ! length (threads c))],
                       blocksizes := (blocksizes c1)(s := None),
                       clientInfo := (clientInfo c1)(s := None),
                       trace := trace c1 @ [Unhooked s]\<rparr>)"
    by (simp add: setupClientSession_def emit_def Let_def)
  with assms
  have "c' = c1\<lparr>threads := (threads c1)[length (threads c) := addClient s (threads c1 ! length (threads c))],
                       blocksizes := (blocksizes c1)(s := None),
                       clientInfo := (clientInfo c1)(s := None),
                       trace := trace c1 @ [Unhooked s]\<rparr>"
    by simp
  with len False show ?thesis
    unfolding c1_def by auto
qed

lemma setupClientSession_registryOk:
  assumes "registryOk c" and "setupClientSession env c s uid = Inr c'"
  shows "registryOk c'"
proof -
  from setupClientSession_result [OF assms(2)] obtain c1 p
    where c1: "c1 = (if containsQ (sessions c) uid then c
                        else snd (createSession c uid (defaultRestore env)))"
      and p: "p < length (threads c1)"
      and c': "c' = c1\<lparr>threads := (threads c1)[p := addClient s (threads c1 ! p)],
                       blocksizes := (blocksizes c1)(s := None),
                       clientInfo := (clientInfo c1)(s := None),
                       trace := trace c1 @ [Unhooked s]\<rparr>"
    by blast
  have "registryOk c1"
    unfolding c1 using assms(1) by (simp add: registryOk_createSession)
  then have "registryOk (c1\<lparr>threads := (threads c1)[p := addClient s (threads c1 ! p)]\<rparr>)"
    using p by (rule registryOk_addClient)
  then show ?thesis
    unfolding c' by (simp add: registryOk_def)
qed

subsection \<open>One session per user\<close>

text \<open>
  C5. In a core whose registry and thread store agree (\<open>registryOk\<close>: the state the
  constructor leaves, and every state that \<open>createSession\<close> and \<open>setupClientSession\<close>
  lead to from one), no two live session threads belong to the same user. \<open>createSession\<close>
  keeps the agreement; called for a user who has a session it returns the null pointer and
  changes nothing but the log, where it leaves its warning. \<open>setupClientSession\<close> for a
  registered user hands the socket to the registered thread (\<open>addClient\<close>), drops the
  socket's two table entries, and neither adds a thread nor touches the registry; whenever
  it returns, the agreement still holds.
\<close>

theorem C5_one_session_per_user:
  assumes "registryOk c"
  shows "distinct (map user (threads c))
       \<and> registryOk (snd (createSession c uid rst))
       \<and> (containsQ (sessions c) uid \<longrightarrow>
            createSession c uid rst =
              (None, emit [Log WarningMsg ''Calling createSession() when a session for the user already exists!''] c))
       \<and> (\<forall>p. map_of (sessions c) uid = Some p \<longrightarrow>
            setupClientSession env c s uid =
              Inr (c\<lparr>threads := (threads c)[p := addClient s (threads c ! p)],
                     blocksizes := (blocksizes c)(s := None),
                     clientInfo := (clientInfo c)(s := None),
                     trace := trace c @ [Unhooked s]\<rparr>))
       \<and> (\<forall>c'. setupClientSession env c s uid = Inr c' \<longrightarrow> registryOk c')"
proof (intro conjI allI impI)
  show "distinct (map user (threads c))"
    by (rule registryOk_distinct [OF assms])
  show "registryOk (snd (createSession c uid rst))"
    by (rule registryOk_createSession [OF assms])
  show "createSession c uid rst =
      (None, emit [Log WarningMsg ''Calling createSession() when a session for the user already exists!''] c)"
    if "containsQ (sessions c) uid"
    using that by (rule createSession_old)
  show "setupClientSession env c s uid =
      Inr (c\<lparr>threads := (threads c)[p := addClient s (threads c ! p)],
             blocksizes := (blocksizes c)(s := None),
             clientInfo := (clientInfo c)(s := None),
             trace := trace c @ [Unhooked s]\<rparr>)"
    if "map_of (sessions c) uid = Some p" for p
  proof -
    from that have "(uid, p) \<in> set (sessions c)" by (rule map_of_SomeD)
    with assms have "p < length (threads c)" by (auto simp: registryOk_iff)
    with that show ?thesis by (rule setupClientSession_old)
  qed
  show "registryOk c'" if "setupClientSession env c s uid = Inr c'" for c'
    using assms that by (rule setupClientSession_registryOk)
qed

lemma twoSessionCore_ok: "registryOk twoSessionCore"
  by (simp add: registryOk_def twoSessionCore_def committedCore_def Let_def upt_rec)

theorem C5_one_session_per_user_witness:
  "distinct (map user (threads twoSessionCore))
   \<and> registryOk (snd (createSession twoSessionCore 1 False))
   \<and> createSession twoSessionCore 1 False =
       (None, emit [Log WarningMsg ''Calling createSession() when a session for the user already exists!'']
                twoSessionCore)
   \<and> setupClientSession sampleEnv twoSessionCore 8 1 =
       Inr (twoSessionCore\<lparr>threads := (threads twoSessionCore)[0 := addClient 8 (threads twoSessionCore ! 0)],
              blocksizes := (blocksizes twoSessionCore)(8 := None),
              clientInfo := (clientInfo twoSessionCore)(8 := None),
              trace := trace twoSessionCore @ [Unhooked 8]\<rparr>)
   \<and> length (threads twoSessionCore) = 2"
proof -
  have a: "containsQ (sessions twoSessionCore) 1" and b: "map_of (sessions twoSessionCore) 1 = Some 0"
    and n: "length (threads twoSessionCore) = 2"
    by (simp_all add: twoSessionCore_def containsQ_def)
  from C5_one_session_per_user [OF twoSessionCore_ok, of 1 False sampleEnv 8]
  have "distinct (map user (threads twoSessionCore))"
    and "registryOk (snd (createSession twoSessionCore 1 False))"
    and "containsQ (sessions twoSessionCore) 1 \<longrightarrow>
            createSession twoSessionCore 1 False =
              (None, emit [Log WarningMsg ''Calling createSession() when a session for the user already exists!''] twoSessionCore)"
    and "\<forall>p. map_of (sessions twoSessionCore) 1 = Some p \<longrightarrow>
            setupClientSession sampleEnv twoSessionCore 8 1 =
              Inr (twoSessionCore\<lparr>threads := (threads twoSessionCore)[p := addClient 8 (threads twoSessionCore ! p)],
                     blocksizes := (blocksizes twoSessionCore)(8 := None),
                     clientInfo := (clientInfo twoSessionCore)(8 := None),
                     trace := trace twoSessionCore @ [Unhooked 8]\<rparr>)"
    by blast+
  with a b n show ?thesis by blast
qed

subsection \<open>Session restore\<close>

lemma createSession_keys:
  "fst ` set (sessions (snd (createSession c u r))) = insert u (fst ` set (sessions c))"
proof (cases "containsQ (sessions c) u")
  case True
  then have "u \<in> fst ` set (sessions c)" by (simp add: containsQ_set)
  with True show ?thesis by (auto simp: createSession_old emit_def)
next
  case False
  then show ?thesis by (simp add: createSession_new fst_insertQ)
qed

lemma createSession_distinct:
  "distinct (map fst (sessions c)) \<Longrightarrow> distinct (map fst (sessions (snd (createSession c u r))))"
  by (cases "containsQ (sessions c) u")
    (simp_all add: createSession_old createSession_new emit_def distinct_insertQ)

lemma restoreSessions_Cons:
  "restoreSessions c (v # vs) = restoreSessions (snd (createSession c (toUserId v) True)) vs"
  by (simp add: restoreSessions_def)

lemma restoreSessions_props:
  assumes "registryOk c" and "distinct (map fst (sessions c))"
  shows "registryOk (restoreSessions c vs)
       \<and> distinct (map fst (sessions (restoreSessions c vs)))
       \<and> fst ` set (sessions (restoreSessions c vs)) = fst ` set (sessions c) \<union> toUserId ` set vs"
  using assms
proof (induction vs arbitrary: c)
  case Nil
  then show ?case by (simp add: restoreSessions_def)
next
  case (Cons v vs)
  let ?c = "snd (createSession c (toUserId v) True)"
  have "registryOk ?c" using Cons.prems(1) by (rule registryOk_createSession)
  moreover have "distinct (map fst (sessions ?c))" using Cons.prems(2) by (rule createSession_distinct)
  ultimately have "registryOk (restoreSessions ?c vs)
       \<and> distinct (map fst (sessions (restoreSessions ?c vs)))
       \<and> fst ` set (sessions (restoreSessions ?c vs)) = fst ` set (sessions ?c) \<union> toUserId ` set vs"
    by (rule Cons.IH)
  then show ?case
    by (simp add: restoreSessions_Cons createSession_keys)
qed

lemma saved_sessions:
  "toList (valueQ (toMap (coreState (settings (saveState c)))) ''ActiveSessions'')
     = map VUserId (map fst (sessions c))"
  by (simp add: saveState_def Let_def valueQ_insertQ)

lemma restoreState_fresh:
  assumes "configured c2" and "sessions c2 = []" and "threads c2 = []"
    and "coreState (settings c2) = coreState (settings (saveState c))"
  shows "registryOk (restoreState c2)
       \<and> distinct (map fst (sessions (restoreState c2)))
       \<and> fst ` set (sessions (restoreState c2)) = fst ` set (sessions c)"
proof -
  let ?vs = "map VUserId (map fst (sessions c))"
  have vs: "toList (valueQ (toMap (coreState (settings c2))) ''ActiveSessions'') = ?vs"
    by (simp add: assms(4) saved_sessions)
  have ids: "toUserId ` set ?vs = fst ` set (sessions c)"
    by (force simp: image_iff)
  show ?thesis
  proof (cases "sessions c = []")
    case True
    with assms vs show ?thesis
      by (simp add: restoreState_def registryOk_def)
  next
    case False
    let ?c = "emit [Log InfoMsg ''Restoring previous core state...''] c2"
    have ok: "registryOk ?c" "distinct (map fst (sessions ?c))" "sessions ?c = []"
      using assms by (simp_all add: registryOk_def emit_def)
    have "restoreState c2 = restoreSessions ?c ?vs"
      using assms False vs by (simp add: restoreState_def Let_def)
    with restoreSessions_props [OF ok(1,2), of ?vs] ok(3) ids show ?thesis
      by simp
  qed
qed

text \<open>
  C9. \<open>saveState\<close> writes the users of the registry into the persisted \<^verbatim>\<open>CoreState\<close>. On a
  core that is configured, has no sessions and no session threads yet, and reads that
  \<^verbatim>\<open>CoreState\<close>, \<open>restoreState\<close> leaves a registry whose users are exactly the saved ones,
  each once, and a thread store with exactly one thread per saved user. On a core that is
  not configured \<open>restoreState\<close> changes nothing at all, and on a core that has sessions
  it leaves the registry and the thread store as they are.
\<close>

theorem C9_restore_round_trip:
  "(configured c2 \<and> sessions c2 = [] \<and> threads c2 = []
      \<and> coreState (settings c2) = coreState (settings (saveState c))
     \<longrightarrow> fst ` set (sessions (restoreState c2)) = fst ` set (sessions c)
       \<and> distinct (map fst (sessions (restoreState c2)))
       \<and> set (map user (threads (restoreState c2))) = fst ` set (sessions c)
       \<and> distinct (map user (threads (restoreState c2))))
   \<and> (\<not> configured c3 \<longrightarrow> restoreState c3 = c3)
   \<and> (sessions c4 \<noteq> [] \<longrightarrow>
        sessions (restoreState c4) = sessions c4 \<and> threads (restoreState c4) = threads c4)"
proof (intro conjI impI)
  assume a: "configured c2 \<and> sessions c2 = [] \<and> threads c2 = []
      \<and> coreState (settings c2) = coreState (settings (saveState c))"
  then have r: "registryOk (restoreState c2)"
    "distinct (map fst (sessions (restoreState c2)))"
    "fst ` set (sessions (restoreState c2)) = fst ` set (sessions c)"
    using restoreState_fresh [of c2 c] by simp_all
  show "fst ` set (sessions (restoreState c2)) = fst ` set (sessions c)" by (rule r(3))
  show "distinct (map fst (sessions (restoreState c2)))" by (rule r(2))
  show "set (map user (threads (restoreState c2))) = fst ` set (sessions c)"
    using registryOk_users [OF r(1)] r(3) by simp
  show "distinct (map user (threads (restoreState c2)))"
    by (rule registryOk_distinct [OF r(1)])
next
  assume "\<not> configured c3"
  then show "restoreState c3 = c3" by (simp add: restoreState_def)
next
  assume "sessions c4 \<noteq> []"
  then show "sessions (restoreState c4) = sessions c4" "threads (restoreState c4) = threads c4"
    by (simp_all add: restoreState_def emit_def)
qed

theorem C9_restore_round_trip_witness:
  "fst ` set (sessions (restoreState (committedCore\<lparr>settings := settings (saveState twoSessionCore)\<rparr>))) = {1, 2}
   \<and> distinct (map fst (sessions (restoreState (committedCore\<lparr>settings := settings (saveState twoSessionCore)\<rparr>))))
   \<and> set (map user (threads (restoreState (committedCore\<lparr>settings := settings (saveState twoSessionCore)\<rparr>)))) = {1, 2}
   \<and> distinct (map user (threads (restoreState (committedCore\<lparr>settings := settings (saveState twoSessionCore)\<rparr>))))
   \<and> restoreState firstRunCore = firstRunCore
   \<and> sessions (restoreState twoSessionCore) = sessions twoSessionCore
   \<and> threads (restoreState twoSessionCore) = threads twoSessionCore"
proof -
  let ?c2 = "committedCore\<lparr>settings := settings (saveState twoSessionCore)\<rparr>"
  have h1: "configured ?c2 \<and> sessions ?c2 = [] \<and> threads ?c2 = []
      \<and> coreState (settings ?c2) = coreState (settings (saveState twoSessionCore))"
    by (simp add: committedCore_def)
  have h2: "\<not> configured firstRunCore" by (simp add: firstRunCore_def)
  have h3: "sessions twoSessionCore \<noteq> []" by (simp add: twoSessionCore_def)
  have keys: "fst ` set (sessions twoSessionCore) = {1, 2}" by (simp add: twoSessionCore_def)
  from C9_restore_round_trip [of ?c2 twoSessionCore firstRunCore twoSessionCore] h1 h2 h3 keys
  show ?thesis by simp
qed

subsection \<open>The handshake on the sample deployment\<close>

lemma handshake_done:
  "\<exists>c. sampleClient committedRun 7 [VMap (initMsg 10)] = Inr c
     \<and> clientInfo c 7 = Some (initMsg 10)
     \<and> storage c = Some 0
     \<and> backendObjs c 0 = Some (sampleBackend (True, [(''alice'', ''secret'')]))"
proof -
  define c1 where "c1 = incomingConnection committedCore [7]"
  have c1: "configured c1" "blocksizes c1 7 = Some 0" "storage c1 = Some 0"
    "backendObjs c1 0 = Some (sampleBackend (True, [(''alice'', ''secret'')]))"
    by (simp_all add: c1_def committedCore_def emit_def)
  obtain r1 where r1: "initAckReply sampleEnv c1 7 = Inr r1"
    using initAckReply_configured [OF c1(1)] by blast
  define c2 where "c2 = emit [Written 7 (insertQ ''MsgType'' (VString ''ClientInitAck'') r1)]
                          (c1\<lparr>clientInfo := (clientInfo c1)(7 \<mapsto> initMsg 10)\<rparr>)"
  have step1: "processClientMessage sampleEnv c1 7 (initMsg 10) = Inr c2"
    using process_init_accepted [OF initMsg_facts(1,2) r1] initMsg_facts(3) [of 7] initMsg_facts(4)
    by (simp add: c2_def)
  have c2: "blocksizes c2 7 = Some 0" "clientInfo c2 7 = Some (initMsg 10)" "storage c2 = Some 0"
    "backendObjs c2 0 = Some (sampleBackend (True, [(''alice'', ''secret'')]))"
    by (simp_all add: c2_def emit_def c1)
  have "sampleClient committedRun 7 [VMap (initMsg 10)] = clientHasData sampleEnv c1 7 [VMap (initMsg 10)]"
    by (simp add: sampleClient_def andThen_def committedRun_eq c1_def)
  then have "sampleClient committedRun 7 [VMap (initMsg 10)] = Inr c2"
    by (simp add: clientHasData_def c1 step1 c2)
  with c2 show ?thesis by blast
qed

theorem C8_login_reject_uniform_witness:
  "andThen (sampleClient committedRun 7 [VMap (initMsg 10)])
     (\<lambda>c. map_sum id (\<lambda>c'. drop (length (trace c)) (trace c'))
            (processClientMessage sampleEnv c 7 (loginMsg ''alice'' ''wrong'')))
     = Inr [Written 7 loginRejectReply]
   \<and> andThen (sampleClient committedRun 7 [VMap (initMsg 10)])
     (\<lambda>c. map_sum id (\<lambda>c'. drop (length (trace c)) (trace c'))
            (processClientMessage sampleEnv c 7 (loginMsg ''mallory'' ''secret'')))
     = Inr [Written 7 loginRejectReply]"
proof -
  from handshake_done obtain c where run: "sampleClient committedRun 7 [VMap (initMsg 10)] = Inr c"
    and c: "clientInfo c 7 = Some (initMsg 10)" "storage c = Some 0"
      "backendObjs c 0 = Some (sampleBackend (True, [(''alice'', ''secret'')]))"
    by blast
  let ?b = "sampleBackend (True, [(''alice'', ''secret'')])"
  have m: "map_of (loginMsg u p) ''MsgType'' = Some (VString ''ClientLogin'')" for u p
    by (simp add: loginMsg_def)
  have v1: "st_validateUser ?b (toString (valueQ (loginMsg ''alice'' ''wrong'') ''User''))
              (toString (valueQ (loginMsg ''alice'' ''wrong'') ''Password'')) (db ?b) = 0"
    by (simp add: sampleBackend_simps loginMsg_def valueQ_def)
  have v2: "st_validateUser ?b (toString (valueQ (loginMsg ''mallory'' ''secret'') ''User''))
              (toString (valueQ (loginMsg ''mallory'' ''secret'') ''Password'')) (db ?b) = 0"
    by (simp add: sampleBackend_simps loginMsg_def valueQ_def)
  from C8_login_reject_uniform [OF c(1) c(1) c(2) c(3) c(2) c(3) m m v1 v2, of sampleEnv]
  show ?thesis
    by (simp add: run andThen_def emit_def)
qed

subsection \<open>Further properties of the code\<close>

text \<open>
  Before any backend is committed the pointer and the flag do agree: from a core whose
  \<^verbatim>\<open>storage\<close> is null, whatever the settings and the setup flag, \<open>initStorage\<close> returns
  with \<^verbatim>\<open>configured\<close> equal to its result and \<^verbatim>\<open>storage\<close> non-null exactly when it
  succeeded.
\<close>

theorem initStorage_before_commit:
  assumes "storage c = None" and "initStorage c dbSettings setup = Inr (ok, c')"
  shows "configured c' = ok \<and> (storage c' \<noteq> None) = ok"
proof -
  consider "initStorage c dbSettings setup = Inl DanglingPointer"
    | "initStorage c dbSettings setup = Inr (False, c\<lparr>configured := False\<rparr>)"
    | "initStorage c dbSettings setup =
        Inr (False, emit [Log ErrorMsg ''Selected storage backend is not available:''] (c\<lparr>configured := False\<rparr>))"
    | a b where "initStorage c dbSettings setup = Inr (initDone (c\<lparr>storage := Some a\<rparr>) a b)"
    | a b where "initStorage c dbSettings setup = Inr (initFailed (c\<lparr>storage := Some a\<rparr>) a b)"
    using initStorage_cases [of c dbSettings "setup"] by blast
  then show ?thesis
  proof cases
    case 1
    with assms(2) show ?thesis by simp
  next
    case 2
    with assms show ?thesis by auto
  next
    case 3
    with assms show ?thesis by (auto simp: emit_def)
  next
    case 4
    with assms(2) have "(ok, c') = initDone (c\<lparr>storage := Some a\<rparr>) a b" by simp
    then have "ok = True" "c' = snd (initDone (c\<lparr>storage := Some a\<rparr>) a b)"
      by (metis fst_conv initDone_fields(1), metis snd_conv)
    then show ?thesis by (simp add: initDone_def)
  next
    case 5
    with assms(2) have "(ok, c') = initFailed (c\<lparr>storage := Some a\<rparr>) a b" by simp
    then have "ok = False" "c' = snd (initFailed (c\<lparr>storage := Some a\<rparr>) a b)"
      by (metis fst_conv initFailed_fst, metis snd_conv)
    then show ?thesis by (simp add: initFailed_def emit_def)
  qed
qed

theorem initStorage_before_commit_witness:
  "initStorage firstRunCore [] False = Inr (False, firstRunCore\<lparr>configured := False\<rparr>)
   \<and> configured (firstRunCore\<lparr>configured := False\<rparr>) = False
   \<and> (storage (firstRunCore\<lparr>configured := False\<rparr>) \<noteq> None) = False"
proof -
  have s: "storage firstRunCore = None" by (simp add: firstRunCore_def)
  have r: "initStorage firstRunCore [] False = Inr (False, firstRunCore\<lparr>configured := False\<rparr>)"
    by (rule initStorage_no_backend) (simp add: valueQ_def)
  from initStorage_before_commit [OF s r] r show ?thesis by blast
qed

text \<open>
  In \<open>setupClientSession\<close> the session pointer is never null: a registered user has a
  registry entry, and for any other user \<open>createSession\<close> returns the new thread. The
  call \<^verbatim>\<open>sess->addClient(socket)\<close> that follows the null check is therefore never made
  on a null pointer.
\<close>

theorem setupClientSession_session_not_null:
  "setupClientSession env c s uid \<noteq> Inl NullSession"
proof (cases "containsQ (sessions c) uid")
  case True
  then obtain p where "map_of (sessions c) uid = Some p"
    by (auto simp: containsQ_def split: option.splits)
  with True show ?thesis
    by (simp add: setupClientSession_def Let_def)
next
  case False
  then show ?thesis
    by (simp add: setupClientSession_def Let_def createSession_new)
qed

lemma descriptor_map:
  "insertQ ''Description'' x (insertQ ''DisplayName'' y []) = [(''Description'', x), (''DisplayName'', y)]"
  by (simp add: insertQ_def removeQ_def)

lemma backendList_entries:
  "backendList h ps = Inr bs \<Longrightarrow>
   list_all2 (\<lambda>p v. \<exists>b. h p = Some b
                \<and> v = VMap [(''Description'', VString (description b)),
                             (''DisplayName'', VString (displayName b))]) ps bs"
proof (induction ps arbitrary: bs)
  case Nil
  then show ?case by simp
next
  case (Cons p ps)
  from Cons.prems obtain b vs where b: "h p = Some b" and vs: "backendList h ps = Inr vs"
    and bs: "bs = VMap [(''Description'', VString (description b)),
                        (''DisplayName'', VString (displayName b))] # vs"
    by (auto simp: descriptor_map split: option.splits sum.splits)
  from Cons.IH [OF vs] b bs show ?case by simp
qed

text \<open>
  The \<^verbatim>\<open>ClientInitAck\<close> of a core whose \<^verbatim>\<open>configured\<close> flag is false: the reply says
  \<^verbatim>\<open>Configured\<close> false and \<^verbatim>\<open>LoginEnabled\<close> false, and its \<^verbatim>\<open>StorageBackends\<close> list has one
  entry per registered backend, in registry order, each the map of that backend's
  \<^verbatim>\<open>DisplayName\<close> and \<^verbatim>\<open>Description\<close>. The list is as long as the registry, so it is
  non-empty exactly when a backend is registered.
\<close>

theorem unconfigured_init_ack:
  assumes "\<not> configured c"
    and "map_of msg ''MsgType'' = Some (VString ''ClientInit'')"
    and "\<not> clientVersion env msg < coreNeedsProtocol env"
    and "backendList (backendObjs c) (map snd (storageBackends c)) = Inr bs"
  shows "\<exists>r evs. processClientMessage env c s msg =
                   Inr (emit (Written s r # evs) (c\<lparr>clientInfo := (clientInfo c)(s \<mapsto> msg)\<rparr>))
           \<and> valueQ r ''MsgType'' = VString ''ClientInitAck''
           \<and> valueQ r ''Configured'' = VBool False
           \<and> valueQ r ''LoginEnabled'' = VBool False
           \<and> valueQ r ''StorageBackends'' = VList bs
           \<and> length bs = length (storageBackends c)
           \<and> list_all2 (\<lambda>p v. \<exists>b. backendObjs c p = Some b
                  \<and> v = VMap [(''Description'', VString (description b)),
                               (''DisplayName'', VString (displayName b))])
                (map snd (storageBackends c)) bs"
proof -
  from initAckReply_unconfigured [OF assms(1,4), of env s] obtain r0
    where r0: "initAckReply env c s = Inr r0"
      and v: "valueQ r0 ''Configured'' = VBool False" "valueQ r0 ''LoginEnabled'' = VBool False"
        "valueQ r0 ''StorageBackends'' = VList bs"
    by blast
  let ?r = "insertQ ''MsgType'' (VString ''ClientInitAck'') r0"
  have entries: "list_all2 (\<lambda>p v. \<exists>b. backendObjs c p = Some b
                  \<and> v = VMap [(''Description'', VString (description b)),
                               (''DisplayName'', VString (displayName b))])
                (map snd (storageBackends c)) bs"
    by (rule backendList_entries [OF assms(4)])
  then have len: "length bs = length (storageBackends c)"
    by (auto dest: list_all2_lengthD)
  have rv: "valueQ ?r ''MsgType'' = VString ''ClientInitAck''" "valueQ ?r ''Configured'' = VBool False"
    "valueQ ?r ''LoginEnabled'' = VBool False" "valueQ ?r ''StorageBackends'' = VList bs"
    by (simp_all add: valueQ_insertQ v)
  from process_init_accepted [OF assms(2,3) r0] rv len entries show ?thesis
    by blast
qed

theorem unconfigured_init_ack_witness:
  "\<exists>r evs. processClientMessage sampleEnv firstRunCore 7 (initMsg 10) =
              Inr (emit (Written 7 r # evs) (firstRunCore\<lparr>clientInfo := (clientInfo firstRunCore)(7 \<mapsto> initMsg 10)\<rparr>))
      \<and> valueQ r ''MsgType'' = VString ''ClientInitAck''
      \<and> valueQ r ''Configured'' = VBool False
      \<and> valueQ r ''LoginEnabled'' = VBool False
      \<and> valueQ r ''StorageBackends'' =
           VList [VMap [(''Description'', VString ''SQLite is a file-based database engine''),
                        (''DisplayName'', VString ''SQLite'')]]"
proof -
  have u: "\<not> configured firstRunCore" by (simp add: firstRunCore_def)
  have bl: "backendList (backendObjs firstRunCore) (map snd (storageBackends firstRunCore)) =
      Inr [VMap [(''Description'', VString ''SQLite is a file-based database engine''),
                 (''DisplayName'', VString ''SQLite'')]]"
    by (simp add: firstRunCore_def descriptor_map sampleBackend_def)
  from unconfigured_init_ack [OF u initMsg_facts(1,2) bl, of 7] show ?thesis
    by blast
qed

lemma initStorage_after_setup:
  assumes "toString (valueQ dbSettings ''Backend'') \<noteq> []"
    and "map_of (storageBackends c) (toString (valueQ dbSettings ''Backend'')) = Some a"
    and "backendObjs c a = Some b"
    and "st_init b dbSettings (db b) = (False, d1)"
    and "st_setup b dbSettings d1 = (True, d2)"
    and "st_init b dbSettings d2 = (True, d3)"
  shows "initStorage c dbSettings True = Inr (initDone (c\<lparr>storage := Some a\<rparr>) a (b\<lparr>db := d3\<rparr>))"
  using assms by (simp add: initStorage_def Let_def)

lemma startListening_frame:
  "configured (snd (startListening env c p)) = configured c"
  "storage (snd (startListening env c p)) = storage c"
  "storageBackends (snd (startListening env c p)) = storageBackends c"
  "backendObjs (snd (startListening env c p)) = backendObjs c"
  "blocksizes (snd (startListening env c p)) = blocksizes c"
  "clientInfo (snd (startListening env c p)) = clientInfo c"
  by (simp_all add: startListening_def serverListen_def emit_def Let_def split: option.splits prod.splits)

lemma setupCore_done:
  assumes "toString (valueQ (toMap v) ''AdminUser'') \<noteq> []"
    and "toString (valueQ (removeQ ''AdminUser'' (toMap v)) ''AdminPasswd'') \<noteq> []"
    and "initStorage c (removeQ ''AdminPasswd'' (removeQ ''AdminUser'' (toMap v))) True = Inr (True, c1)"
    and "storage c1 = Some a" and "backendObjs c1 a = Some b"
  shows "\<exists>c2. setupCore env c v = Inr ([], c2)
            \<and> configured c2 = configured c1 \<and> storage c2 = storage c1
            \<and> storageBackends c2 = storageBackends c1
            \<and> blocksizes c2 = blocksizes c1 \<and> clientInfo c2 = clientInfo c1"
  using assms by (simp add: setupCore_def Let_def emit_def startListening_frame)

lemma process_setup_done:
  "clientInfo c s = Some info \<Longrightarrow>
   map_of msg ''MsgType'' = Some (VString ''CoreSetupData'') \<Longrightarrow>
   setupCore env c (valueQ msg ''SetupData'') = Inr ([], c1) \<Longrightarrow>
   processClientMessage env c s msg =
     Inr (emit [Written s (insertQ ''MsgType'' (VString ''CoreSetupAck'') [])] c1)"
  by (simp add: processClientMessage_def containsQ_def valueQ_def)

subsection \<open>Two setup requests in a row\<close>

lemma two_setups:
  "map_sum id flagAndBackend
     (sampleClient firstRun 7 [VMap (initMsg 10), VMap (setupMsg ''SQLite'')]) = Inr (True, Some 0)
   \<and> map_sum id flagAndBackend
     (sampleClient firstRun 7 [VMap (initMsg 10), VMap (setupMsg ''SQLite''), VMap (setupMsg ''PostgreSQL'')])
       = Inr (False, Some 0)"
proof -
  define c1 where "c1 = incomingConnection firstRunCore [7]"
  have c1: "\<not> configured c1" "blocksizes c1 7 = Some 0"
    "storageBackends c1 = [(''SQLite'', 0)]" "backendObjs c1 0 = Some (sampleBackend (False, []))"
    by (simp_all add: c1_def firstRunCore_def emit_def)
  have "\<exists>bs. backendList (backendObjs c1) (map snd (storageBackends c1)) = Inr bs"
    by (simp add: c1)
  then obtain r1 where r1: "initAckReply sampleEnv c1 7 = Inr r1"
    using initAckReply_unconfigured [OF c1(1)] by blast
  define c2 where "c2 = emit [Written 7 (insertQ ''MsgType'' (VString ''ClientInitAck'') r1)]
                          (c1\<lparr>clientInfo := (clientInfo c1)(7 \<mapsto> initMsg 10)\<rparr>)"
  have step1: "processClientMessage sampleEnv c1 7 (initMsg 10) = Inr c2"
    using process_init_accepted [OF initMsg_facts(1,2) r1] initMsg_facts(3) [of 7] initMsg_facts(4)
    by (simp add: c2_def)
  have c2: "blocksizes c2 7 = Some 0" "clientInfo c2 7 = Some (initMsg 10)"
    "storageBackends c2 = [(''SQLite'', 0)]" "backendObjs c2 0 = Some (sampleBackend (False, []))"
    by (simp_all add: c2_def emit_def c1)
  define c3 where "c3 = snd (initDone (c2\<lparr>storage := Some 0\<rparr>) 0 (sampleBackend (True, [])))"
  have "initStorage c2 [(''Backend'', VString ''SQLite'')] True
      = Inr (initDone (c2\<lparr>storage := Some 0\<rparr>) 0 ((sampleBackend (False, []))\<lparr>db := (True, [])\<rparr>))"
    by (rule initStorage_after_setup [where ?d1.0 = "(False, [])" and ?d2.0 = "(True, [])"])
      (simp_all add: valueQ_def c2 sampleBackend_simps)
  moreover have "initDone (c2\<lparr>storage := Some 0\<rparr>) 0 (sampleBackend (True, [])) = (True, c3)"
    unfolding c3_def by (rule prod_eqI) (simp_all add: initDone_fields)
  ultimately have commit: "initStorage c2 [(''Backend'', VString ''SQLite'')] True = Inr (True, c3)"
    by (simp add: sampleBackend_simps)
  have c3: "configured c3" "storage c3 = Some 0" "storageBackends c3 = []"
    "backendObjs c3 0 = Some (sampleBackend (True, []))"
    "blocksizes c3 = blocksizes c2" "clientInfo c3 = clientInfo c2"
    by (simp_all add: c3_def initDone_def deleteOthers_apply)
  have "initStorage c2 (removeQ ''AdminPasswd'' (removeQ ''AdminUser''
            (toMap (valueQ (setupMsg ''SQLite'') ''SetupData'')))) True = Inr (True, c3)"
    by (simp add: setupMsg_facts commit)
  from setupCore_done [OF setupMsg_facts(2,3) this c3(2,4), of sampleEnv]
  obtain c4 where setup1: "setupCore sampleEnv c2 (valueQ (setupMsg ''SQLite'') ''SetupData'') = Inr ([], c4)"
    and c4: "configured c4" "storage c4 = Some 0" "storageBackends c4 = []"
      "blocksizes c4 7 = Some 0" "clientInfo c4 7 = Some (initMsg 10)"
    using c3 c2 by auto
  define c5 where "c5 = emit [Written 7 (insertQ ''MsgType'' (VString ''CoreSetupAck'') [])] c4"
  have step2: "processClientMessage sampleEnv c2 7 (setupMsg ''SQLite'') = Inr c5"
    unfolding c5_def by (rule process_setup_done [OF c2(2) setupMsg_facts(1) setup1])
  have c5: "configured c5" "storage c5 = Some 0" "storageBackends c5 = []"
    "blocksizes c5 7 = Some 0" "clientInfo c5 7 = Some (initMsg 10)"
    by (simp_all add: c5_def emit_def c4)
  define c6 where "c6 = emit [Log ErrorMsg ''Selected storage backend is not available:'']
                          (c5\<lparr>configured := False\<rparr>)"
  have "initStorage c5 [(''Backend'', VString ''PostgreSQL'')] True = Inr (False, c6)"
    unfolding c6_def by (rule initStorage_unregistered) (simp_all add: valueQ_def c5)
  then have "setupCore sampleEnv c5 (valueQ (setupMsg ''PostgreSQL'') ''SetupData'')
      = Inr (''Could not setup storage!'', c6)"
    by (intro setupCore_storage_failed setupMsg_facts) (simp add: setupMsg_facts)
  from process_setup_rejected [OF c5(5) setupMsg_facts(1) this]
  obtain c7 where step3: "processClientMessage sampleEnv c5 7 (setupMsg ''PostgreSQL'') = Inr c7"
    and c7: "\<not> configured c7" "storage c7 = Some 0" "blocksizes c7 7 = Some 0"
    by (simp add: emit_def c6_def c5)
  have run: "sampleClient firstRun 7 items = clientHasData sampleEnv c1 7 items" for items
    by (simp add: sampleClient_def andThen_def firstRun_eq c1_def)
  have "sampleClient firstRun 7 [VMap (initMsg 10), VMap (setupMsg ''SQLite'')] = Inr c5"
    by (simp add: run clientHasData_def c1 step1 c2 step2 c5)
  moreover have "sampleClient firstRun 7
      [VMap (initMsg 10), VMap (setupMsg ''SQLite''), VMap (setupMsg ''PostgreSQL'')] = Inr c7"
    by (simp add: run clientHasData_def c1 step1 c2 step2 c5 step3 c7)
  ultimately show ?thesis
    by (simp add: flagAndBackend_def c5 c7)
qed

text \<open>
  C3. The specification says that a setup request that names another backend, on a core
  that has committed one, fails and changes nothing. A client of a core on its first run
  sends \<^verbatim>\<open>ClientInit\<close> and a setup request for SQLite: the core is then configured, on
  the backend at address 0. Its next setup request, for PostgreSQL, is rejected and the
  backend pointer stays, but \<^verbatim>\<open>configured\<close> is false afterwards. The same on the core that
  starts on stored settings: \<open>initStorage\<close> for PostgreSQL reports failure and returns
  the core with \<^verbatim>\<open>configured\<close> cleared and one log entry more.
\<close>

theorem C3_second_setup_clears_flag:
  "map_sum id flagAndBackend
     (sampleClient firstRun 7 [VMap (initMsg 10), VMap (setupMsg ''SQLite'')]) = Inr (True, Some 0)
   \<and> map_sum id flagAndBackend
     (sampleClient firstRun 7 [VMap (initMsg 10), VMap (setupMsg ''SQLite''), VMap (setupMsg ''PostgreSQL'')])
       = Inr (False, Some 0)
   \<and> committedRun = Inr committedCore
   \<and> configured committedCore
   \<and> storage committedCore = Some 0
   \<and> initStorage committedCore [(''Backend'', VString ''PostgreSQL'')] True
       = Inr (False, emit [Log ErrorMsg ''Selected storage backend is not available:'']
                       (committedCore\<lparr>configured := False\<rparr>))"
proof -
  have "initStorage committedCore [(''Backend'', VString ''PostgreSQL'')] True
       = Inr (False, emit [Log ErrorMsg ''Selected storage backend is not available:'']
                       (committedCore\<lparr>configured := False\<rparr>))"
    by (rule initStorage_unregistered) (simp_all add: valueQ_def committedCore_def)
  moreover have "configured committedCore" "storage committedCore = Some 0"
    by (simp_all add: committedCore_def)
  ultimately show ?thesis
    using two_setups by (simp add: committedRun_eq)
qed

subsection \<open>Messages of other kinds\<close>

lemma literal_as_bool:
  "strToBool sampleEnv ''ClientInit''" "strToBool sampleEnv ''CoreSetupData''"
  "strToBool sampleEnv ''ClientLogin''"
  by (simp_all add: sampleEnv_def qtStrToBool_def asciiLower_def)

lemma handshake_trace:
  "\<exists>c. sampleClient committedRun 7 [VMap (initMsg 10)] = Inr c
     \<and> (\<forall>item. sampleClient committedRun 7 [VMap (initMsg 10), item]
                  = processClientMessage sampleEnv c 7 (toMap item))
     \<and> clientInfo c 7 = Some (initMsg 10)
     \<and> blocksizes c 7 = Some 0
     \<and> length (trace c) = 3"
proof -
  define c1 where "c1 = incomingConnection committedCore [7]"
  have c1: "configured c1" "blocksizes c1 7 = Some 0" "length (trace c1) = 2"
    by (simp_all add: c1_def committedCore_def emit_def)
  obtain r1 where r1: "initAckReply sampleEnv c1 7 = Inr r1"
    using initAckReply_configured [OF c1(1)] by blast
  define c2 where "c2 = emit [Written 7 (insertQ ''MsgType'' (VString ''ClientInitAck'') r1)]
                          (c1\<lparr>clientInfo := (clientInfo c1)(7 \<mapsto> initMsg 10)\<rparr>)"
  have step1: "processClientMessage sampleEnv c1 7 (initMsg 10) = Inr c2"
    using process_init_accepted [OF initMsg_facts(1,2) r1] initMsg_facts(3) [of 7] initMsg_facts(4)
    by (simp add: c2_def)
  have c2: "blocksizes c2 7 = Some 0" "clientInfo c2 7 = Some (initMsg 10)" "length (trace c2) = 3"
    by (simp_all add: c2_def emit_def c1)
  have run: "sampleClient committedRun 7 items = clientHasData sampleEnv c1 7 items" for items
    by (simp add: sampleClient_def andThen_def committedRun_eq c1_def)
  have one: "sampleClient committedRun 7 [VMap (initMsg 10)] = Inr c2"
    by (simp add: run clientHasData_def c1 step1 c2)
  have two: "sampleClient committedRun 7 [VMap (initMsg 10), item]
      = processClientMessage sampleEnv c2 7 (toMap item)" for item
    by (simp add: run clientHasData_def c1 step1 c2 split: sum.splits option.splits)
  from one two c2 show ?thesis by blast
qed

text \<open>
  C10, as stated, at a concrete input. A client of the configured core has completed the
  init exchange on socket 7; so far the trace has three events. Its next message carries
  the \<^verbatim>\<open>MsgType\<close> \<^verbatim>\<open>true\<close>, a boolean, which is none of the three strings. The comparison
  with \<^verbatim>\<open>"ClientInit"\<close> converts the literal to the boolean true, so the message is handled
  as a \<^verbatim>\<open>ClientInit\<close> without a version: a \<^verbatim>\<open>ClientInitReject\<close> is written and the socket
  is closed.
\<close>

theorem C10_boolean_type_handled_as_init:
  "map_sum id (eventsFrom 3) (sampleClient committedRun 7 [VMap (initMsg 10)]) = Inr []
   \<and> map_sum id (eventsFrom 3)
        (sampleClient committedRun 7 [VMap (initMsg 10), VMap [(''MsgType'', VBool True)]])
     = Inr [Written 7 [(''Error'', VString (tooOldText sampleEnv)),
                       (''MsgType'', VString ''ClientInitReject'')],
            Log WarningMsg ''Client too old, rejecting.'',
            Closed 7]"
proof -
  from handshake_trace obtain c where one: "sampleClient committedRun 7 [VMap (initMsg 10)] = Inr c"
    and two: "sampleClient committedRun 7 [VMap (initMsg 10), VMap [(''MsgType'', VBool True)]]
                  = processClientMessage sampleEnv c 7 (toMap (VMap [(''MsgType'', VBool True)]))"
    and c: "length (trace c) = 3"
    by blast
  have v: "clientVersion sampleEnv [(''MsgType'', VBool True)] < coreNeedsProtocol sampleEnv"
    by (simp add: clientVersion_def containsQ_def valueQ_def sampleEnv_def)
  have "processClientMessage sampleEnv c 7 [(''MsgType'', VBool True)]
      = Inr (emit [Written 7 [(''Error'', VString (tooOldText sampleEnv)),
                              (''MsgType'', VString ''ClientInitReject'')],
                   Log WarningMsg ''Client too old, rejecting.'',
                   Closed 7] c)"
    using v literal_as_bool(1)
    by (simp add: processClientMessage_def clientInit_def containsQ_def valueQ_def
        insertQ_def removeQ_def)
  with one two c show ?thesis
    by (simp add: eventsFrom_def emit_def)
qed

theorem C10_unknown_message_ignored_witness:
  "andThen (sampleClient committedRun 7 [VMap (initMsg 10)])
     (\<lambda>c. processClientMessage sampleEnv c 7 [(''MsgType'', VString ''Heartbeat'')])
     = sampleClient committedRun 7 [VMap (initMsg 10)]
   \<and> andThen (sampleClient committedRun 7 [VMap (initMsg 10)])
     (\<lambda>c. processClientMessage sampleEnv c 7 [(''MsgType'', VBool False)])
     = sampleClient committedRun 7 [VMap (initMsg 10)]
   \<and> map_sum id (\<lambda>c. clientInfo c 7) (sampleClient committedRun 7 [VMap (initMsg 10)])
     = Inr (Some (initMsg 10))"
proof -
  from handshake_done obtain c where run: "sampleClient committedRun 7 [VMap (initMsg 10)] = Inr c"
    and c: "clientInfo c 7 = Some (initMsg 10)"
    by blast
  have t: "map_of [(''MsgType'', VString ''Heartbeat'')] ''MsgType'' = Some (VString ''Heartbeat'')"
    by simp
  have s: "\<not> eqString sampleEnv (VString ''Heartbeat'') ''ClientInit''"
    "\<not> eqString sampleEnv (VString ''Heartbeat'') ''CoreSetupData''"
    "\<not> eqString sampleEnv (VString ''Heartbeat'') ''ClientLogin''"
    by simp_all
  have t': "map_of [(''MsgType'', VBool False)] ''MsgType'' = Some (VBool False)"
    by simp
  have s': "\<not> eqString sampleEnv (VBool False) ''ClientInit''"
    "\<not> eqString sampleEnv (VBool False) ''CoreSetupData''"
    "\<not> eqString sampleEnv (VBool False) ''ClientLogin''"
    using literal_as_bool by simp_all
  from C10_unknown_message_ignored [OF c t s] C10_unknown_message_ignored [OF c t' s']
  show ?thesis
    by (simp add: run andThen_def c)
qed

end
